theory Spec2Isabelle
  imports Complex_Main "HOL-Library.Word"
begin

section \<open>Python values, exceptions and sequence operations\<close>

text \<open>
  The notebooks are Python scripts over NumPy and Qiskit.  An exception is a value of
  type \<open>error\<close>; a computation that may raise returns \<open>error + 'a\<close>, with \<open>Inl\<close> for
  the exception.  NumPy floats are idealised as exact real and complex numbers.
\<close>

datatype error = TypeError | IndexError | QiskitError | CircuitError

type_synonym 'a result = "error + 'a"

definition bindr :: "'a result \<Rightarrow> ('a \<Rightarrow> 'b result) \<Rightarrow> 'b result" where
  "bindr m f = (case m of Inl e \<Rightarrow> Inl e | Inr x \<Rightarrow> f x)"

text \<open>Indexing \<open>xs[i]\<close> of a list or of an array along its first axis: a negative index
  counts from the end, an index out of range raises IndexError.\<close>

definition getitem :: "'a list \<Rightarrow> int \<Rightarrow> 'a result" where
  "getitem xs i =
     (if 0 \<le> i \<and> i < int (length xs) then Inr (xs ! nat i)
      else if i < 0 \<and> - int (length xs) \<le> i then Inr (xs ! nat (int (length xs) + i))
      else Inl IndexError)"

text \<open>A list comprehension \<open>[f(x) for x in xs]\<close> whose body may raise: the elements are
  computed from left to right and the first exception ends the comprehension.\<close>

fun comprehension :: "('a \<Rightarrow> 'b result) \<Rightarrow> 'a list \<Rightarrow> 'b list result" where
  "comprehension f [] = Inr []"
| "comprehension f (x # xs) =
     bindr (f x) (\<lambda>y. bindr (comprehension f xs) (\<lambda>ys. Inr (y # ys)))"

text \<open>\<open>functools.reduce(f, xs)\<close> with no initial value: a left fold that starts from the
  first element, and TypeError on the empty sequence.\<close>

fun fold_left :: "('a \<Rightarrow> 'b \<Rightarrow> 'a result) \<Rightarrow> 'a \<Rightarrow> 'b list \<Rightarrow> 'a result" where
  "fold_left f a [] = Inr a"
| "fold_left f a (x # xs) = bindr (f a x) (\<lambda>a'. fold_left f a' xs)"

fun reduce :: "('a \<Rightarrow> 'a \<Rightarrow> 'a result) \<Rightarrow> 'a list \<Rightarrow> 'a result" where
  "reduce f [] = Inl TypeError"
| "reduce f (x # xs) = fold_left f x xs"

definition np_eye :: "nat \<Rightarrow> real list list" where
  "np_eye n = map (\<lambda>i. map (\<lambda>j. if i = j then 1 else 0) [0..<n]) [0..<n]"

definition np_zeros :: "nat \<Rightarrow> real list" where
  "np_zeros n = replicate n 0"

section \<open>Pauli operators of the variational-circuits notebook\<close>

text \<open>
  Qiskit's \<open>Pauli(z, x)\<close> keeps two Boolean vectors, one entry per qubit: the first
  marks the qubits that carry a \<open>\<sigma>\<^sup>Z\<close>, the second those that carry a \<open>\<sigma>\<^sup>X\<close>.  The
  constructor turns its numeric arguments into Booleans and rejects vectors of different
  lengths; the product of two Paulis is the entrywise exclusive or of both vectors (the
  phase is dropped).  The label of a Pauli lists one letter per qubit, the last qubit first.
\<close>

record pauli =
  z_bits :: "bool list"
  x_bits :: "bool list"

definition make_np_bool :: "real list \<Rightarrow> bool list" where
  "make_np_bool v = map (\<lambda>a. a \<noteq> 0) v"

definition Pauli :: "real list \<Rightarrow> real list \<Rightarrow> pauli result" where
  "Pauli z x =
     (if length z \<noteq> length x then Inl QiskitError
      else Inr \<lparr>z_bits = make_np_bool z, x_bits = make_np_bool x\<rparr>)"

definition logical_xor :: "bool list \<Rightarrow> bool list \<Rightarrow> bool list" where
  "logical_xor a b = map (\<lambda>(u, v). u \<noteq> v) (zip a b)"

definition pauli_mul :: "pauli \<Rightarrow> pauli \<Rightarrow> pauli result" where
  "pauli_mul a b =
     (if length (z_bits a) \<noteq> length (z_bits b) then Inl QiskitError
      else Inr \<lparr>z_bits = logical_xor (z_bits a) (z_bits b),
                x_bits = logical_xor (x_bits a) (x_bits b)\<rparr>)"

definition factor :: "pauli \<Rightarrow> nat \<Rightarrow> char" where
  "factor P j =
     (if z_bits P ! j then (if x_bits P ! j then CHR ''Y'' else CHR ''Z'')
      else (if x_bits P ! j then CHR ''X'' else CHR ''I''))"

definition to_label :: "pauli \<Rightarrow> string" where
  "to_label P = map (factor P) (rev [0..<length (z_bits P)])"

text \<open>The standard basis vector \<open>e\<^sub>k\<close> of length \<open>n\<close>, and the Pauli that acts trivially
  on all \<open>n\<close> qubits.\<close>

definition unit_vector :: "nat \<Rightarrow> nat \<Rightarrow> bool list" where
  "unit_vector n k = map (\<lambda>j. j = k) [0..<n]"

definition identity_pauli :: "nat \<Rightarrow> pauli" where
  "identity_pauli n = \<lparr>z_bits = replicate n False, x_bits = replicate n False\<rparr>"

text \<open>
  A coefficient is a Python number (an int, a float or a complex, kept as an exact complex
  number) or a NumPy \<open>int64\<close>, such as an entry of the array \<open>J\<close> of the notebook.
  Arithmetic on an \<open>int64\<close> wraps around: the negative and the absolute value of
  \<open>- 2 ^ 63\<close> are \<open>- 2 ^ 63\<close> again.
\<close>

datatype weight = Number complex | Int64 "64 word"

definition int64_min :: "64 word" where
  "int64_min = word_of_int (- (2 ^ 63))"

definition np_absolute :: "64 word \<Rightarrow> 64 word" where
  "np_absolute v = (if sint v < 0 then - v else v)"

definition weight_value :: "weight \<Rightarrow> complex" where
  "weight_value w = (case w of Number z \<Rightarrow> z | Int64 v \<Rightarrow> of_int (sint v))"

text \<open>
  A \<open>WeightedPauliOperator\<close> holds a list of terms, each a complex weight and a Pauli.
  Its constructor ends with \<open>simplify()\<close>, which merges the terms of equal Paulis and then
  calls \<open>chop(0.0)\<close>.  For each weight, \<open>chop\<close> keeps the real part when its absolute
  value is at least the threshold and takes \<open>0.0\<close> otherwise, does the same to the
  imaginary part, and stores the sum of the two as a complex number; a term whose new
  weight is zero is removed.  With the threshold \<open>0.0\<close> the parts of a Python number are
  always kept; the real part of an \<open>int64\<close> is kept unless its absolute value has
  wrapped to a negative number.

  The helpers call the constructor on a list of one term, \<open>[[coeff, P]]\<close>, where there
  is nothing to merge; \<open>WeightedPauliOperator coeff P\<close> is that call.
\<close>

datatype wpo = Operator (paulis: "(complex \<times> pauli) list")

definition chop_real_imag :: "weight \<Rightarrow> complex" where
  "chop_real_imag w =
     (case w of
        Number z \<Rightarrow> z
      | Int64 v \<Rightarrow> (if 0 \<le> sint (np_absolute v) then of_int (sint v) else 0))"

definition WeightedPauliOperator :: "weight \<Rightarrow> pauli \<Rightarrow> wpo" where
  "WeightedPauliOperator coeff P =
     (let new_weight = chop_real_imag coeff
      in Operator (if new_weight \<noteq> 0 then [(new_weight, P)] else []))"

text \<open>The helper functions of the notebook.  They read the global \<open>n_qubits\<close>, which is
  the first argument here.\<close>

definition pauli_x :: "nat \<Rightarrow> int \<Rightarrow> weight \<Rightarrow> wpo result" where
  "pauli_x n_qubits qubit coeff =
     (let eye = np_eye n_qubits in
      bindr (getitem eye qubit) (\<lambda>row.
      bindr (Pauli (np_zeros n_qubits) row) (\<lambda>P.
      Inr (WeightedPauliOperator coeff P))))"

definition pauli_z :: "nat \<Rightarrow> int \<Rightarrow> weight \<Rightarrow> wpo result" where
  "pauli_z n_qubits qubit coeff =
     (let eye = np_eye n_qubits in
      bindr (getitem eye qubit) (\<lambda>row.
      bindr (Pauli row (np_zeros n_qubits)) (\<lambda>P.
      Inr (WeightedPauliOperator coeff P))))"

definition product_pauli_z :: "nat \<Rightarrow> int \<Rightarrow> int \<Rightarrow> weight \<Rightarrow> wpo result" where
  "product_pauli_z n_qubits q1 q2 coeff =
     (let eye = np_eye n_qubits in
      bindr (getitem eye q1) (\<lambda>row1.
      bindr (Pauli row1 (np_zeros n_qubits)) (\<lambda>P1.
      bindr (getitem eye q2) (\<lambda>row2.
      bindr (Pauli row2 (np_zeros n_qubits)) (\<lambda>P2.
      bindr (pauli_mul P1 P2) (\<lambda>P.
      Inr (WeightedPauliOperator coeff P)))))))"

text \<open>
  The Hamiltonians of the notebook are sums of such operators, folded with \<open>reduce\<close>.
  The sum of two operators is Qiskit's; it is the parameter \<open>add\<close>.  \<open>J\<close> is an array of
  \<open>int64\<close>, \<open>J[i, j]\<close> indexes its two dimensions and \<open>- J[i, j]\<close> is the wrapping
  negative; \<open>itertools.product(range(n_qubits), repeat=2)\<close> lists the pairs \<open>(i, j)\<close> with
  the first component varying slowest.
\<close>

definition getitem2 :: "'a list list \<Rightarrow> int \<Rightarrow> int \<Rightarrow> 'a result" where
  "getitem2 m i j = bindr (getitem m i) (\<lambda>row. getitem row j)"

definition Hm_terms :: "nat \<Rightarrow> wpo list result" where
  "Hm_terms n_qubits =
     comprehension (\<lambda>i. pauli_x n_qubits (int i) (Number (- 1))) [0..<n_qubits]"

definition Hm :: "(wpo \<Rightarrow> wpo \<Rightarrow> wpo result) \<Rightarrow> nat \<Rightarrow> wpo result" where
  "Hm add n_qubits = bindr (Hm_terms n_qubits) (reduce add)"

definition Hc_term :: "nat \<Rightarrow> 64 word list list \<Rightarrow> nat \<times> nat \<Rightarrow> wpo result" where
  "Hc_term n_qubits J ij =
     (case ij of (i, j) \<Rightarrow>
        bindr (getitem2 J (int i) (int j)) (\<lambda>v.
        product_pauli_z n_qubits (int i) (int j) (Int64 (- v))))"

definition Hc_terms :: "nat \<Rightarrow> 64 word list list \<Rightarrow> wpo list result" where
  "Hc_terms n_qubits J =
     comprehension (Hc_term n_qubits J) (List.product [0..<n_qubits] [0..<n_qubits])"

definition Hc ::
  "(wpo \<Rightarrow> wpo \<Rightarrow> wpo result) \<Rightarrow> nat \<Rightarrow> 64 word list list \<Rightarrow> wpo result" where
  "Hc add n_qubits J = bindr (Hc_terms n_qubits J) (reduce add)"

section \<open>Registers and circuits\<close>

text \<open>
  A register has a kind, a name and a size, and two registers are equal when all three
  agree.  A circuit holds its quantum registers, its classical registers and the list of
  its instructions, in the order in which they were appended.  The instruction type is a
  parameter: the circuits of the variational notebook are built by the library and their
  instructions stay opaque.

  \<open>a + b\<close> on circuits is Qiskit's \<open>combine\<close>: it raises when a register of \<open>a\<close> and a
  register of \<open>b\<close> share a name and differ, and otherwise returns a new circuit on the
  registers of \<open>a\<close> followed by the registers of \<open>b\<close> that \<open>a\<close> lacks, with the
  instructions of \<open>a\<close> followed by those of \<open>b\<close>.
\<close>

datatype regkind = Quantum | Classical

record register =
  reg_kind :: regkind
  reg_name :: string
  reg_size :: nat

record 'i circuit =
  qregs :: "register list"
  cregs :: "register list"
  data :: "'i list"

definition same_name_same_reg :: "register \<Rightarrow> register \<Rightarrow> bool" where
  "same_name_same_reg r s = (if reg_name s = reg_name r then r = s else True)"

definition compatible_regs :: "'i circuit \<Rightarrow> 'i circuit \<Rightarrow> bool" where
  "compatible_regs a b =
     list_all (\<lambda>r. list_all (same_name_same_reg r) (qregs b @ cregs b)) (qregs a @ cregs a)"

definition union_regs :: "register list \<Rightarrow> register list \<Rightarrow> register list" where
  "union_regs rs ss = rs @ filter (\<lambda>r. r \<notin> set rs) ss"

definition joined :: "'i circuit \<Rightarrow> 'i circuit \<Rightarrow> 'i circuit" where
  "joined a b =
     \<lparr>qregs = union_regs (qregs a) (qregs b),
      cregs = union_regs (cregs a) (cregs b),
      data = data a @ data b\<rparr>"

definition combine :: "'i circuit \<Rightarrow> 'i circuit \<Rightarrow> 'i circuit result" where
  "combine a b = (if compatible_regs a b then Inr (joined a b) else Inl CircuitError)"

section \<open>The variational circuit\<close>

text \<open>
  \<open>evolve\<close> forwards to the \<open>evolve\<close> method of the Hamiltonian.  The method belongs to
  the library; it is the parameter \<open>lib_evolve\<close>, which receives the Hamiltonian and the
  arguments of the call, by position and by keyword, and may raise.
\<close>

record 'i evolve_call =
  state_in :: "'i circuit option"
  evo_time :: real
  num_time_slices :: nat
  quantum_registers :: "register option"
  expansion_mode :: string
  expansion_order :: nat

definition evolve ::
  "('h \<Rightarrow> 'i evolve_call \<Rightarrow> 'i circuit result) \<Rightarrow> 'h \<Rightarrow> real \<Rightarrow> register \<Rightarrow> 'i circuit result" where
  "evolve lib_evolve hamiltonian angle registers =
     lib_evolve hamiltonian
       \<lparr>state_in = None, evo_time = angle, num_time_slices = 1,
        quantum_registers = Some registers,
        expansion_mode = ''suzuki'', expansion_order = 3\<rparr>"

text \<open>
  \<open>create_circuit\<close> reads the globals \<open>Hc\<close>, \<open>Hm\<close>, \<open>qr\<close>, \<open>circuit_init\<close> and \<open>p\<close>;
  they are the arguments \<open>hc\<close>, \<open>hm\<close>, \<open>qr\<close>, \<open>circuit_init\<close> and \<open>p\<close> here.  The layer of
  step \<open>i\<close> is computed from left to right: \<open>beta[i]\<close>, the evolution under \<open>Hc\<close>,
  \<open>gamma[i]\<close>, the evolution under \<open>Hm\<close>, their sum.
\<close>

definition layer ::
  "('h \<Rightarrow> 'i evolve_call \<Rightarrow> 'i circuit result) \<Rightarrow> 'h \<Rightarrow> 'h \<Rightarrow> register \<Rightarrow>
   real list \<Rightarrow> real list \<Rightarrow> nat \<Rightarrow> 'i circuit result" where
  "layer lib_evolve hc hm qr beta gamma i =
     bindr (getitem beta (int i)) (\<lambda>b.
     bindr (evolve lib_evolve hc b qr) (\<lambda>x.
     bindr (getitem gamma (int i)) (\<lambda>g.
     bindr (evolve lib_evolve hm g qr) (\<lambda>y.
     combine x y))))"

definition create_circuit ::
  "('h \<Rightarrow> 'i evolve_call \<Rightarrow> 'i circuit result) \<Rightarrow> 'h \<Rightarrow> 'h \<Rightarrow> register \<Rightarrow> 'i circuit \<Rightarrow>
   nat \<Rightarrow> real list \<Rightarrow> real list \<Rightarrow> 'i circuit result" where
  "create_circuit lib_evolve hc hm qr circuit_init p beta gamma =
     bindr (comprehension (layer lib_evolve hc hm qr beta gamma) [0..<p]) (\<lambda>layers.
     bindr (reduce combine layers) (\<lambda>circuit_evolv.
     combine circuit_init circuit_evolv))"

text \<open>
  \<open>evaluate_circuit\<close> also reads the global \<open>backend\<close>.  Running the circuit on it and
  reading the state vector is the parameter \<open>get_statevector\<close>; the method
  \<open>evaluate_with_statevector\<close> of the Hamiltonian, which returns the mean and the
  standard deviation, is a parameter too.
\<close>

definition evaluate_circuit ::
  "('h \<Rightarrow> 'i evolve_call \<Rightarrow> 'i circuit result) \<Rightarrow> ('i circuit \<Rightarrow> complex list result) \<Rightarrow>
   ('h \<Rightarrow> complex list \<Rightarrow> (complex \<times> complex) result) \<Rightarrow>
   'h \<Rightarrow> 'h \<Rightarrow> register \<Rightarrow> 'i circuit \<Rightarrow> nat \<Rightarrow> real list \<Rightarrow> real result" where
  "evaluate_circuit lib_evolve get_statevector evaluate_with_statevector
     hc hm qr circuit_init p beta_gamma =
     (let n = length beta_gamma div 2 in
      bindr (create_circuit lib_evolve hc hm qr circuit_init p
               (take n beta_gamma) (drop n beta_gamma)) (\<lambda>circuit.
      bindr (get_statevector circuit) (\<lambda>psi.
      bindr (evaluate_with_statevector hc psi) (\<lambda>r.
      Inr (Re (fst r))))))"

text \<open>Appending the circuits of a list to a circuit, one after the other; a clash of
  registers raises.\<close>

definition append_all :: "'i circuit \<Rightarrow> 'i circuit list \<Rightarrow> 'i circuit result" where
  "append_all c xs = fold_left combine c xs"

section \<open>Gate circuits\<close>

text \<open>
  The gate-model notebook and the thermal-state assignment build circuits gate by gate.
  A qubit or a classical bit is a register with an index, \<open>q[i]\<close>.  The methods \<open>h\<close>,
  \<open>rx\<close> and \<open>cx\<close> of a circuit append one instruction.  \<open>measure\<close> on two registers of
  the same size appends one measurement per bit; a register of one qubit is measured into
  every bit of the classical register; any other pair of sizes raises.

  A register created without a name takes it from a counter that the library keeps for
  each kind of register: the prefix \<open>q\<close> or \<open>c\<close> followed by the number of anonymous
  registers of that kind created before (the notebooks draw \<open>q0_0\<close> and \<open>c0_0\<close> in a
  fresh session, \<open>q2_0\<close> and \<open>q16_0\<close> in later ones).  The two counters are the state
  \<open>lib_state\<close>, passed through every function that creates a register: a call takes the
  state and returns its result, or the exception it raises, with the new state.  A
  register of size zero is refused with CircuitError before a name is taken.
\<close>

type_synonym bit = "register \<times> nat"

datatype instr =
    H_gate bit
  | RX_gate real bit
  | CX_gate bit bit
  | Measure bit bit

record lib_state =
  q_instances :: nat
  c_instances :: nat

definition digit_char :: "nat \<Rightarrow> char" where
  "digit_char d = ''0123456789'' ! d"

fun string_of_nat :: "nat \<Rightarrow> string" where
  "string_of_nat n =
     (if n < 10 then [digit_char n] else string_of_nat (n div 10) @ [digit_char (n mod 10)])"

declare string_of_nat.simps [simp del]

type_synonym 'a lib = "lib_state \<Rightarrow> 'a result \<times> lib_state"

definition pure_st :: "'a result \<Rightarrow> 'a lib" where
  "pure_st r s = (r, s)"

definition bind_st :: "'a lib \<Rightarrow> ('a \<Rightarrow> 'b lib) \<Rightarrow> 'b lib" where
  "bind_st m f s = (case m s of (Inl e, s1) \<Rightarrow> (Inl e, s1) | (Inr x, s1) \<Rightarrow> f x s1)"

definition QuantumRegister :: "nat \<Rightarrow> register lib" where
  "QuantumRegister n s =
     (if n = 0 then (Inl CircuitError, s)
      else (Inr \<lparr>reg_kind = Quantum, reg_name = ''q'' @ string_of_nat (q_instances s),
                 reg_size = n\<rparr>,
            s\<lparr>q_instances := q_instances s + 1\<rparr>))"

definition ClassicalRegister :: "nat \<Rightarrow> register lib" where
  "ClassicalRegister n s =
     (if n = 0 then (Inl CircuitError, s)
      else (Inr \<lparr>reg_kind = Classical, reg_name = ''c'' @ string_of_nat (c_instances s),
                 reg_size = n\<rparr>,
            s\<lparr>c_instances := c_instances s + 1\<rparr>))"

definition QuantumCircuit :: "register list \<Rightarrow> register list \<Rightarrow> instr circuit" where
  "QuantumCircuit qs cs = \<lparr>qregs = qs, cregs = cs, data = []\<rparr>"

definition circuit_h :: "bit \<Rightarrow> instr circuit \<Rightarrow> instr circuit" where
  "circuit_h q c = c\<lparr>data := data c @ [H_gate q]\<rparr>"

definition circuit_rx :: "real \<Rightarrow> bit \<Rightarrow> instr circuit \<Rightarrow> instr circuit" where
  "circuit_rx theta q c = c\<lparr>data := data c @ [RX_gate theta q]\<rparr>"

definition circuit_cx :: "bit \<Rightarrow> bit \<Rightarrow> instr circuit \<Rightarrow> instr circuit" where
  "circuit_cx ctl tgt c = c\<lparr>data := data c @ [CX_gate ctl tgt]\<rparr>"

definition circuit_measure :: "register \<Rightarrow> register \<Rightarrow> instr circuit \<Rightarrow> instr circuit result" where
  "circuit_measure q cl c =
     (if reg_size cl = reg_size q
      then Inr (c\<lparr>data := data c @ map (\<lambda>i. Measure (q, i) (cl, i)) [0..<reg_size q]\<rparr>)
      else if reg_size q = 1 \<and> 0 < reg_size cl
      then Inr (c\<lparr>data := data c @ map (\<lambda>i. Measure (q, 0) (cl, i)) [0..<reg_size cl]\<rparr>)
      else Inl CircuitError)"

text \<open>The circuit of the gate-model notebook: a Hadamard gate on qubit 0, a CNOT from
  qubit 0 to qubit 1, and the measurement of both qubits.\<close>

definition bell_circuit :: "instr circuit lib" where
  "bell_circuit =
     bind_st (QuantumRegister 2) (\<lambda>q.
     bind_st (ClassicalRegister 2) (\<lambda>c.
     pure_st (circuit_measure q c
                (circuit_cx (q, 0) (q, 1) (circuit_h (q, 0) (QuantumCircuit [q] [c]))))))"

text \<open>The state preparation of the thermal-state assignment.  It reads the global
  \<open>n_qubits\<close>, the first argument here.\<close>

definition prepare_init_circuit :: "nat \<Rightarrow> real \<Rightarrow> instr circuit lib" where
  "prepare_init_circuit n_qubits beta =
     bind_st (QuantumRegister (n_qubits * 2)) (\<lambda>qr.
     pure_st (Inr
       (let circuit = QuantumCircuit [qr] [];
            alpha = 2 * arctan (exp (- beta))
        in foldl (\<lambda>circ i. circuit_cx (qr, n_qubits + i) (qr, i)
                             (circuit_rx alpha (qr, n_qubits + i) circ))
             circuit [0..<n_qubits])))"

text \<open>
  The helpers \<open>evolve\<close> and \<open>create_circuit\<close> once more, over a library whose \<open>evolve\<close>
  method may read and change the state of the library: the state is passed from each call
  to the next, in the order of evaluation, and an exception ends the computation.
\<close>

definition evolve_st ::
  "('h \<Rightarrow> 'i evolve_call \<Rightarrow> 'i circuit lib) \<Rightarrow> 'h \<Rightarrow> real \<Rightarrow> register \<Rightarrow> 'i circuit lib" where
  "evolve_st lib_evolve hamiltonian angle registers =
     lib_evolve hamiltonian
       \<lparr>state_in = None, evo_time = angle, num_time_slices = 1,
        quantum_registers = Some registers,
        expansion_mode = ''suzuki'', expansion_order = 3\<rparr>"

definition layer_st ::
  "('h \<Rightarrow> 'i evolve_call \<Rightarrow> 'i circuit lib) \<Rightarrow> 'h \<Rightarrow> 'h \<Rightarrow> register \<Rightarrow>
   real list \<Rightarrow> real list \<Rightarrow> nat \<Rightarrow> 'i circuit lib" where
  "layer_st lib_evolve hc hm qr beta gamma i =
     bind_st (pure_st (getitem beta (int i))) (\<lambda>b.
     bind_st (evolve_st lib_evolve hc b qr) (\<lambda>x.
     bind_st (pure_st (getitem gamma (int i))) (\<lambda>g.
     bind_st (evolve_st lib_evolve hm g qr) (\<lambda>y.
     pure_st (combine x y)))))"

fun comprehension_st :: "('a \<Rightarrow> 'b lib) \<Rightarrow> 'a list \<Rightarrow> 'b list lib" where
  "comprehension_st f [] = pure_st (Inr [])"
| "comprehension_st f (x # xs) =
     bind_st (f x) (\<lambda>y. bind_st (comprehension_st f xs) (\<lambda>ys. pure_st (Inr (y # ys))))"

definition create_circuit_st ::
  "('h \<Rightarrow> 'i evolve_call \<Rightarrow> 'i circuit lib) \<Rightarrow> 'h \<Rightarrow> 'h \<Rightarrow> register \<Rightarrow> 'i circuit \<Rightarrow>
   nat \<Rightarrow> real list \<Rightarrow> real list \<Rightarrow> 'i circuit lib" where
  "create_circuit_st lib_evolve hc hm qr circuit_init p beta gamma =
     bind_st (comprehension_st (layer_st lib_evolve hc hm qr beta gamma) [0..<p]) (\<lambda>layers.
     pure_st (bindr (reduce combine layers) (\<lambda>circuit_evolv.
              combine circuit_init circuit_evolv)))"

section \<open>Simulation\<close>

text \<open>
  The simulators of the library, for the gates above.  A state of \<open>n\<close> qubits is the list
  of its \<open>2 ^ n\<close> amplitudes; qubit \<open>k\<close> is bit \<open>k\<close> of the index.  The matrices of the gates
  are those of the table in the gate-model notebook.

  A measurement splits a run in two: each branch keeps the classical bits written so far
  and the projected, unnormalised state, whose squared norm is the probability of the
  branch.  The probability of an outcome is the weight of the branches that end with it,
  and the shots of an experiment are independent.
\<close>

definition bit_of :: "nat \<Rightarrow> nat \<Rightarrow> bool" where
  "bit_of i k = odd (i div 2 ^ k)"

fun offset :: "register list \<Rightarrow> register \<Rightarrow> nat" where
  "offset [] r = 0"
| "offset (r' # rs) r = (if r' = r then 0 else reg_size r' + offset rs r)"

definition bit_index :: "register list \<Rightarrow> bit \<Rightarrow> nat" where
  "bit_index regs b = offset regs (fst b) + snd b"

definition num_bits :: "register list \<Rightarrow> nat" where
  "num_bits regs = sum_list (map reg_size regs)"

type_synonym matrix2 = "complex \<times> complex \<times> complex \<times> complex"

definition H_matrix :: matrix2 where
  "H_matrix = (1 / sqrt 2, 1 / sqrt 2, 1 / sqrt 2, - 1 / sqrt 2)"

definition RX_matrix :: "real \<Rightarrow> matrix2" where
  "RX_matrix theta =
     (cos (theta / 2), - \<i> * sin (theta / 2), - \<i> * sin (theta / 2), cos (theta / 2))"

definition apply_1q :: "matrix2 \<Rightarrow> nat \<Rightarrow> complex list \<Rightarrow> complex list" where
  "apply_1q u k psi =
     (case u of (a, b, c, d) \<Rightarrow>
        map (\<lambda>i. if bit_of i k then c * psi ! (i - 2 ^ k) + d * psi ! i
                 else a * psi ! i + b * psi ! (i + 2 ^ k))
          [0..<length psi])"

definition apply_cx :: "nat \<Rightarrow> nat \<Rightarrow> complex list \<Rightarrow> complex list" where
  "apply_cx ctl tgt psi =
     map (\<lambda>i. if bit_of i ctl then psi ! (if bit_of i tgt then i - 2 ^ tgt else i + 2 ^ tgt)
              else psi ! i)
       [0..<length psi]"

definition project :: "nat \<Rightarrow> bool \<Rightarrow> complex list \<Rightarrow> complex list" where
  "project k v psi = map (\<lambda>i. if bit_of i k = v then psi ! i else 0) [0..<length psi]"

type_synonym branch = "bool list \<times> complex list"

fun step :: "instr circuit \<Rightarrow> instr \<Rightarrow> branch \<Rightarrow> branch list" where
  "step c (H_gate q) (m, psi) = [(m, apply_1q H_matrix (bit_index (qregs c) q) psi)]"
| "step c (RX_gate theta q) (m, psi) =
     [(m, apply_1q (RX_matrix theta) (bit_index (qregs c) q) psi)]"
| "step c (CX_gate ctl tgt) (m, psi) =
     [(m, apply_cx (bit_index (qregs c) ctl) (bit_index (qregs c) tgt) psi)]"
| "step c (Measure q b) (m, psi) =
     [(m[bit_index (cregs c) b := False], project (bit_index (qregs c) q) False psi),
      (m[bit_index (cregs c) b := True], project (bit_index (qregs c) q) True psi)]"

definition initial_branch :: "instr circuit \<Rightarrow> branch" where
  "initial_branch c =
     (replicate (num_bits (cregs c)) False,
      map (\<lambda>i. if i = 0 then 1 else 0) [0..<2 ^ num_bits (qregs c)])"

definition run :: "instr circuit \<Rightarrow> branch list" where
  "run c = foldl (\<lambda>bs ins. concat (map (step c ins) bs)) [initial_branch c] (data c)"

definition weight :: "complex list \<Rightarrow> real" where
  "weight psi = sum_list (map (\<lambda>a. (cmod a)\<^sup>2) psi)"

definition bitstring :: "bool list \<Rightarrow> string" where
  "bitstring m = map (\<lambda>b. if b then CHR ''1'' else CHR ''0'') (rev m)"

definition outcome_prob :: "instr circuit \<Rightarrow> string \<Rightarrow> real" where
  "outcome_prob c out =
     sum_list (map (\<lambda>br. if bitstring (fst br) = out then weight (snd br) else 0) (run c))"

definition memory_prob :: "instr circuit \<Rightarrow> string list \<Rightarrow> real" where
  "memory_prob c outs = prod_list (map (outcome_prob c) outs)"

text \<open>The state vector of a circuit is defined when no measurement splits the run.\<close>

definition statevector :: "instr circuit \<Rightarrow> complex list option" where
  "statevector c = (case run c of [br] \<Rightarrow> Some (snd br) | _ \<Rightarrow> None)"

text \<open>The density matrix of a pure state, and the partial trace over a list of qubits,
  which removes them one at a time from the highest index down.\<close>

definition outer :: "complex list \<Rightarrow> complex list list" where
  "outer psi = map (\<lambda>a. map (\<lambda>b. a * cnj b) psi) psi"

definition to_density_matrix :: "instr circuit \<Rightarrow> complex list list option" where
  "to_density_matrix c = map_option outer (statevector c)"

definition insert_bit :: "nat \<Rightarrow> nat \<Rightarrow> nat \<Rightarrow> nat" where
  "insert_bit k v i = (i div 2 ^ k) * 2 ^ (k + 1) + v * 2 ^ k + i mod 2 ^ k"

definition trace_out :: "nat \<Rightarrow> complex list list \<Rightarrow> complex list list" where
  "trace_out k dm =
     map (\<lambda>a. map (\<lambda>b. dm ! insert_bit k 0 a ! insert_bit k 0 b
                       + dm ! insert_bit k 1 a ! insert_bit k 1 b)
                [0..<length dm div 2])
       [0..<length dm div 2]"

definition partial_trace :: "complex list list \<Rightarrow> nat list \<Rightarrow> complex list list" where
  "partial_trace dm qargs = foldl (\<lambda>m k. trace_out k m) dm (rev (sort (remdups qargs)))"

text \<open>Modelled from the spec: \<open>get_amplitudes\<close> is defined in \<open>assignment_helper.py\<close>,
  which is not among the sources.  The grading cell uses it for the state vector of the
  circuit, and that is what it returns here.\<close>

definition get_amplitudes :: "instr circuit \<Rightarrow> complex list option" where
  "get_amplitudes c = statevector c"

text \<open>The grading cell of the third exercise: \<open>np.allclose\<close> with its default
  tolerances, applied to the amplitudes of the circuit and to the expected state.\<close>

definition np_allclose :: "complex list \<Rightarrow> complex list \<Rightarrow> bool" where
  "np_allclose a b =
     (length a = length b \<and>
      list_all (\<lambda>xy. cmod (fst xy - snd xy) \<le> 1 / 10 ^ 8 + 1 / 10 ^ 5 * cmod (snd xy)) (zip a b))"

definition exercise3_assertion :: "instr circuit \<Rightarrow> bool option" where
  "exercise3_assertion c =
     map_option (\<lambda>amplitudes. np_allclose amplitudes
        [complex_of_real (1 / sqrt 2), 0, 0, - \<i> * complex_of_real (1 / sqrt 2)])
       (get_amplitudes c)"

section \<open>Auxiliary notions\<close>

text \<open>A result that fails, if at all, with \<open>CircuitError\<close>.\<close>

definition only_circuit_error :: "'a result \<Rightarrow> bool" where
  "only_circuit_error m = (case m of Inl e \<Rightarrow> e = CircuitError | Inr x \<Rightarrow> True)"

text \<open>A circuit with the names of its registers erased, in its register lists and in the
  bits of its instructions.\<close>

definition erase_reg :: "register \<Rightarrow> register" where
  "erase_reg r = r\<lparr>reg_name := []\<rparr>"

fun erase_instr :: "instr \<Rightarrow> instr" where
  "erase_instr (H_gate q) = H_gate (erase_reg (fst q), snd q)"
| "erase_instr (RX_gate theta q) = RX_gate theta (erase_reg (fst q), snd q)"
| "erase_instr (CX_gate ctl tgt) =
     CX_gate (erase_reg (fst ctl), snd ctl) (erase_reg (fst tgt), snd tgt)"
| "erase_instr (Measure q b) =
     Measure (erase_reg (fst q), snd q) (erase_reg (fst b), snd b)"

definition erase_names :: "instr circuit \<Rightarrow> instr circuit" where
  "erase_names c =
     \<lparr>qregs = map erase_reg (qregs c), cregs = map erase_reg (cregs c),
      data = map erase_instr (data c)\<rparr>"

text \<open>Reading a decimal numeral back: the inverse of \<open>string_of_nat\<close>.\<close>

definition digit_value :: "char \<Rightarrow> nat" where
  "digit_value c = of_char c - 48"

definition nat_of_string :: "string \<Rightarrow> nat" where
  "nat_of_string cs = foldl (\<lambda>a c. 10 * a + digit_value c) 0 cs"

text \<open>The bits that an instruction acts on; a circuit is well formed when each of them
  belongs to a register of the circuit and lies within its size.\<close>

fun instr_bits :: "instr \<Rightarrow> bit list" where
  "instr_bits (H_gate q) = [q]"
| "instr_bits (RX_gate theta q) = [q]"
| "instr_bits (CX_gate ctl tgt) = [ctl, tgt]"
| "instr_bits (Measure q b) = [q, b]"

definition well_formed :: "instr circuit \<Rightarrow> bool" where
  "well_formed c =
     list_all (\<lambda>ins. list_all (\<lambda>b. fst b \<in> set (qregs c @ cregs c) \<and> snd b < reg_size (fst b))
                        (instr_bits ins))
       (data c)"

text \<open>The registers that the two scripts allocate in a library state \<open>s\<close>, the rotations
  and controlled nots of the thermal-state circuit on a register \<open>r\<close>, and the circuit of
  the gate-model notebook written out.\<close>

definition thermal_reg :: "nat \<Rightarrow> lib_state \<Rightarrow> register" where
  "thermal_reg n_qubits s =
     \<lparr>reg_kind = Quantum, reg_name = ''q'' @ string_of_nat (q_instances s),
      reg_size = n_qubits * 2\<rparr>"

definition thermal_circuit_on :: "nat \<Rightarrow> real \<Rightarrow> register \<Rightarrow> instr circuit" where
  "thermal_circuit_on n_qubits beta r =
     \<lparr>qregs = [r], cregs = [],
      data = concat (map (\<lambda>i. [RX_gate (2 * arctan (exp (- beta))) (r, n_qubits + i),
                               CX_gate (r, n_qubits + i) (r, i)])
                       [0..<n_qubits])\<rparr>"

definition bell_q :: "lib_state \<Rightarrow> register" where
  "bell_q s = \<lparr>reg_kind = Quantum, reg_name = ''q'' @ string_of_nat (q_instances s), reg_size = 2\<rparr>"

definition bell_c :: "lib_state \<Rightarrow> register" where
  "bell_c s =
     \<lparr>reg_kind = Classical, reg_name = ''c'' @ string_of_nat (c_instances s), reg_size = 2\<rparr>"

definition bell_result :: "lib_state \<Rightarrow> instr circuit" where
  "bell_result s =
     \<lparr>qregs = [bell_q s], cregs = [bell_c s],
      data = [H_gate (bell_q s, 0), CX_gate (bell_q s, 0) (bell_q s, 1),
              Measure (bell_q s, 0) (bell_c s, 0), Measure (bell_q s, 1) (bell_c s, 1)]\<rparr>"

text \<open>Sample values for concrete runs: a library whose evolution circuit is one opaque
  instruction that records the Hamiltonian and the time, the same library when each call
  also uses up an anonymous register name, a register, an initial circuit, a simulator and
  an expectation value.\<close>

definition sample_evolve ::
  "string \<Rightarrow> (string \<times> real) evolve_call \<Rightarrow> (string \<times> real) circuit result" where
  "sample_evolve h a =
     (case quantum_registers a of
        None \<Rightarrow> Inl QiskitError
      | Some r \<Rightarrow> Inr \<lparr>qregs = [r], cregs = [], data = [(h, evo_time a)]\<rparr>)"

definition sample_evolve_st ::
  "string \<Rightarrow> (string \<times> real) evolve_call \<Rightarrow> (string \<times> real) circuit lib" where
  "sample_evolve_st h a s =
     (sample_evolve h a, s\<lparr>q_instances := q_instances s + 1\<rparr>)"

definition sample_qr :: register where
  "sample_qr = \<lparr>reg_kind = Quantum, reg_name = ''q0'', reg_size = 2\<rparr>"

definition sample_init :: "(string \<times> real) circuit" where
  "sample_init = \<lparr>qregs = [sample_qr], cregs = [], data = [(''init'', 0)]\<rparr>"

definition sample_statevector :: "(string \<times> real) circuit \<Rightarrow> complex list result" where
  "sample_statevector c = Inr (map (\<lambda>g. complex_of_real (snd g)) (data c))"

definition sample_expectation :: "string \<Rightarrow> complex list \<Rightarrow> (complex \<times> complex) result" where
  "sample_expectation h psi = Inr (sum_list psi + \<i>, 0)"

definition session :: "nat \<Rightarrow> nat \<Rightarrow> lib_state" where
  "session nq nc = \<lparr>q_instances = nq, c_instances = nc\<rparr>"

section \<open>Basic facts\<close>

lemma bindr_Inr [simp]: "bindr (Inr x) f = f x"
  by (simp add: bindr_def)

lemma bindr_Inl [simp]: "bindr (Inl e) f = Inl e"
  by (simp add: bindr_def)

lemma bindr_assoc: "bindr (bindr m f) g = bindr m (\<lambda>x. bindr (f x) g)"
  by (cases m) simp_all

lemma getitem_in_range:
  "0 \<le> i \<Longrightarrow> i < int (length xs) \<Longrightarrow> getitem xs i = Inr (xs ! nat i)"
  by (simp add: getitem_def Let_def)

lemma getitem_nat: "i < length xs \<Longrightarrow> getitem xs (int i) = Inr (xs ! i)"
  by (simp add: getitem_def Let_def)

lemma getitem_nat_Inr: "getitem xs (int i) = Inr y \<Longrightarrow> y = xs ! i"
  by (auto simp: getitem_def Let_def split: if_splits)

lemma comprehension_cong:
  "(\<And>x. x \<in> set xs \<Longrightarrow> f x = g x) \<Longrightarrow> comprehension f xs = comprehension g xs"
  by (induction xs) simp_all

lemma comprehension_length: "comprehension f xs = Inr ys \<Longrightarrow> length ys = length xs"
proof (induction xs arbitrary: ys)
  case Nil
  then show ?case by simp
next
  case (Cons x xs)
  then show ?case
    by (cases "f x"; cases "comprehension f xs") auto
qed

lemma comprehension_nth:
  "comprehension f xs = Inr ys \<Longrightarrow> k < length xs \<Longrightarrow> f (xs ! k) = Inr (ys ! k)"
proof (induction xs arbitrary: ys k)
  case Nil
  then show ?case by simp
next
  case (Cons x xs)
  then show ?case
    by (cases "f x"; cases "comprehension f xs"; cases k) auto
qed

lemma upt_0_2: "[0..<2] = [0, 1]"
  by (simp add: upt_rec)

lemma upt_0_4: "[0..<4] = [0, 1, 2, 3]"
  by (simp add: upt_rec)

lemma replicate_2: "replicate 2 x = [x, x]"
  by (simp add: numeral_2_eq_2)

section \<open>The Pauli helpers\<close>

lemma sint_int64_min: "sint int64_min = - (2 ^ 63)"
  by (simp add: int64_min_def)

lemma sint_eq_int64_min: "sint (v :: 64 word) = - (2 ^ 63) \<longleftrightarrow> v = int64_min"
  using sint_int64_min word_eq_iff_signed [where 'a = int, of v int64_min] by simp

lemma sint_eq_0: "sint (v :: 64 word) = 0 \<longleftrightarrow> v = 0"
  using word_eq_iff_signed [where 'a = int, of v 0] by simp

lemma minus_int64_min: "- int64_min = int64_min"
  by (simp add: int64_min_def)

lemma minus_eq_int64_min: "- (v :: 64 word) = int64_min \<longleftrightarrow> v = int64_min"
  by (metis minus_int64_min minus_minus)

lemma sint_minus:
  assumes "v \<noteq> int64_min"
  shows "sint (- (v :: 64 word)) = - sint v"
proof -
  have "sint v \<noteq> - (2 ^ 63)"
    using assms sint_eq_int64_min [of v] by simp
  with sint_ge [of v] sint_lt [of v] have "- (2 ^ 63) \<le> - sint v \<and> - sint v < 2 ^ 63"
    by simp
  then have "signed_take_bit 63 (- sint v) = - sint v"
    by (simp add: signed_take_bit_int_eq_self_iff)
  then show ?thesis by (simp add: sint_word_minus)
qed

text \<open>The absolute value of an \<open>int64\<close> is negative for \<open>- 2 ^ 63\<close> only.\<close>

lemma np_absolute_nonneg: "0 \<le> sint (np_absolute v) \<longleftrightarrow> v \<noteq> int64_min"
proof (cases "v = int64_min")
  case True
  then show ?thesis by (simp add: np_absolute_def sint_int64_min minus_int64_min)
next
  case False
  then show ?thesis by (simp add: np_absolute_def sint_minus)
qed

lemma weight_value_Int64_eq_0: "weight_value (Int64 v) = 0 \<longleftrightarrow> v = 0"
  by (simp add: weight_value_def signed_eq_0_iff)

lemma chop_real_imag_value:
  "chop_real_imag coeff = (if coeff = Int64 int64_min then 0 else weight_value coeff)"
  by (cases coeff) (simp_all add: chop_real_imag_def weight_value_def np_absolute_nonneg)

text \<open>The constructor keeps the one term it is given unless the weight is zero, or is the
  \<open>int64\<close> whose absolute value wraps.\<close>

lemma WeightedPauliOperator_kept:
  assumes "weight_value coeff \<noteq> 0" and "coeff \<noteq> Int64 int64_min"
  shows "WeightedPauliOperator coeff P = Operator [(weight_value coeff, P)]"
  using assms by (simp add: WeightedPauliOperator_def chop_real_imag_value)

lemma WeightedPauliOperator_dropped:
  assumes "weight_value coeff = 0 \<or> coeff = Int64 int64_min"
  shows "WeightedPauliOperator coeff P = Operator []"
  using assms by (auto simp: WeightedPauliOperator_def chop_real_imag_value)

lemma bool_eye_row:
  "make_np_bool (map (\<lambda>j. if k = j then 1 else 0) [0..<n]) = unit_vector n k"
  by (auto simp: make_np_bool_def unit_vector_def)

lemma bool_zeros: "make_np_bool (np_zeros n) = replicate n False"
  by (simp add: make_np_bool_def np_zeros_def)

text \<open>Row \<open>q\<close> of the identity matrix, for every index: an index in \<open>[- n, n)\<close> selects
  row \<open>q mod n\<close>, any other index raises.\<close>

lemma eye_getitem_any:
  "getitem (np_eye n) q =
     (if - int n \<le> q \<and> q < int n
      then Inr (map (\<lambda>j. if nat (q mod int n) = j then 1 else 0) [0..<n])
      else Inl IndexError)"
proof -
  have "nat (int n + q) = nat (q mod int n)" if "q < 0" and "- int n \<le> q"
  proof -
    have "q mod int n = (q + int n) mod int n" by simp
    also have "\<dots> = q + int n" using that by (intro mod_pos_pos_trivial) simp_all
    finally show ?thesis by (simp add: add.commute)
  qed
  moreover have "nat (int n + q) < n" if "q < 0" and "- int n \<le> q"
    using that by linarith
  ultimately show ?thesis
    by (auto simp: getitem_def np_eye_def)
qed

lemma eye_getitem:
  assumes "0 \<le> q" and "q < int n"
  shows "getitem (np_eye n) q = Inr (map (\<lambda>j. if nat q = j then 1 else 0) [0..<n])"
  using assms by (simp add: getitem_in_range np_eye_def)

lemma Pauli_x_row:
  "Pauli (np_zeros n) (map (\<lambda>j. if k = j then 1 else 0) [0..<n])
     = Inr \<lparr>z_bits = replicate n False, x_bits = unit_vector n k\<rparr>"
proof -
  have "length (np_zeros n) = length (map (\<lambda>j. if k = j then 1 else (0::real)) [0..<n])"
    by (simp add: np_zeros_def)
  then show ?thesis
    by (simp add: Pauli_def bool_eye_row bool_zeros)
qed

lemma Pauli_z_row:
  "Pauli (map (\<lambda>j. if k = j then 1 else 0) [0..<n]) (np_zeros n)
     = Inr \<lparr>z_bits = unit_vector n k, x_bits = replicate n False\<rparr>"
proof -
  have "length (map (\<lambda>j. if k = j then 1 else (0::real)) [0..<n]) = length (np_zeros n)"
    by (simp add: np_zeros_def)
  then show ?thesis
    by (simp add: Pauli_def bool_eye_row bool_zeros)
qed

lemma xor_replicate_False:
  "logical_xor (replicate n False) (replicate n False) = replicate n False"
  by (simp add: logical_xor_def)

lemma xor_unit_vectors:
  "logical_xor (unit_vector n a) (unit_vector n b) = map (\<lambda>j. (j = a) \<noteq> (j = b)) [0..<n]"
  by (simp add: logical_xor_def unit_vector_def zip_map_map zip_same_conv_map)

lemma pauli_mul_z_z:
  "pauli_mul \<lparr>z_bits = unit_vector n a, x_bits = replicate n False\<rparr>
             \<lparr>z_bits = unit_vector n b, x_bits = replicate n False\<rparr>
     = Inr \<lparr>z_bits = map (\<lambda>j. (j = a) \<noteq> (j = b)) [0..<n], x_bits = replicate n False\<rparr>"
  by (simp add: pauli_mul_def xor_replicate_False xor_unit_vectors)
    (simp add: unit_vector_def)

text \<open>The three helpers on every input: what they return is given by their arguments and
  \<open>n_qubits\<close>.\<close>

lemma pauli_x_any:
  "pauli_x n_qubits qubit coeff =
     (if - int n_qubits \<le> qubit \<and> qubit < int n_qubits
      then Inr (WeightedPauliOperator coeff
                  \<lparr>z_bits = replicate n_qubits False,
                   x_bits = unit_vector n_qubits (nat (qubit mod int n_qubits))\<rparr>)
      else Inl IndexError)"
  by (simp add: pauli_x_def Let_def eye_getitem_any Pauli_x_row)

lemma pauli_z_any:
  "pauli_z n_qubits qubit coeff =
     (if - int n_qubits \<le> qubit \<and> qubit < int n_qubits
      then Inr (WeightedPauliOperator coeff
                  \<lparr>z_bits = unit_vector n_qubits (nat (qubit mod int n_qubits)),
                   x_bits = replicate n_qubits False\<rparr>)
      else Inl IndexError)"
  by (simp add: pauli_z_def Let_def eye_getitem_any Pauli_z_row)

lemma product_pauli_z_any:
  "product_pauli_z n_qubits q1 q2 coeff =
     (if - int n_qubits \<le> q1 \<and> q1 < int n_qubits \<and> - int n_qubits \<le> q2 \<and> q2 < int n_qubits
      then Inr (WeightedPauliOperator coeff
                  \<lparr>z_bits = map (\<lambda>j. (j = nat (q1 mod int n_qubits))
                                      \<noteq> (j = nat (q2 mod int n_qubits))) [0..<n_qubits],
                   x_bits = replicate n_qubits False\<rparr>)
      else Inl IndexError)"
  by (simp add: product_pauli_z_def Let_def eye_getitem_any Pauli_z_row pauli_mul_z_z)

lemma pauli_x_value:
  assumes "0 \<le> qubit" and "qubit < int n_qubits"
  shows "pauli_x n_qubits qubit coeff
           = Inr (WeightedPauliOperator coeff
               \<lparr>z_bits = replicate n_qubits False,
                x_bits = unit_vector n_qubits (nat qubit)\<rparr>)"
  using assms by (simp add: pauli_x_def Let_def eye_getitem Pauli_x_row)

lemma pauli_z_value:
  assumes "0 \<le> qubit" and "qubit < int n_qubits"
  shows "pauli_z n_qubits qubit coeff
           = Inr (WeightedPauliOperator coeff
               \<lparr>z_bits = unit_vector n_qubits (nat qubit),
                x_bits = replicate n_qubits False\<rparr>)"
  using assms by (simp add: pauli_z_def Let_def eye_getitem Pauli_z_row)

lemma product_pauli_z_value:
  assumes "0 \<le> q1" and "q1 < int n_qubits" and "0 \<le> q2" and "q2 < int n_qubits"
  shows "product_pauli_z n_qubits q1 q2 coeff
           = Inr (WeightedPauliOperator coeff
               \<lparr>z_bits = map (\<lambda>j. (j = nat q1) \<noteq> (j = nat q2)) [0..<n_qubits],
                x_bits = replicate n_qubits False\<rparr>)"
  using assms
  by (simp add: product_pauli_z_def Let_def eye_getitem Pauli_z_row pauli_mul_z_z)

lemma product_pauli_z_same:
  assumes "0 \<le> q" and "q < int n_qubits"
  shows "product_pauli_z n_qubits q q coeff
           = Inr (WeightedPauliOperator coeff (identity_pauli n_qubits))"
  using assms by (simp add: product_pauli_z_value identity_pauli_def map_replicate_const)

text \<open>The mixing Hamiltonian of the notebook is the sum of two terms; the notebook
  prints them as \<open>IX\<close> and \<open>XI\<close>, both with the complex coefficient \<open>-1\<close>.\<close>

lemma Hm_terms_two_qubits:
  "Hm_terms 2 = Inr [Operator [(- 1, \<lparr>z_bits = [False, False], x_bits = [True, False]\<rparr>)],
                     Operator [(- 1, \<lparr>z_bits = [False, False], x_bits = [False, True]\<rparr>)]]
   \<and> to_label \<lparr>z_bits = [False, False], x_bits = [True, False]\<rparr> = ''IX''
   \<and> to_label \<lparr>z_bits = [False, False], x_bits = [False, True]\<rparr> = ''XI''"
  by (simp add: Hm_terms_def upt_0_2 pauli_x_value unit_vector_def replicate_2 to_label_def
      factor_def WeightedPauliOperator_kept weight_value_def)

text \<open>
  Claim C4, amended.  For a qubit index within \<open>[0, n_qubits)\<close> and a coefficient other
  than zero (and other than the \<open>int64\<close> \<open>- 2 ^ 63\<close>), \<open>pauli_x\<close> returns an operator with
  exactly one weighted term.  Its weight is the coefficient, as a complex number; the
  x-component of its Pauli is the standard basis vector of the qubit and the z-component
  is all zeros, so the Pauli is \<open>\<sigma>\<^sup>X\<close> on that qubit and the identity on every other
  qubit.  For the coefficient zero the constructor removes the term, and the operator has
  none.
\<close>

theorem pauli_x_single_term:
  assumes "0 \<le> qubit" and "qubit < int n_qubits"
  shows "(weight_value coeff \<noteq> 0 \<and> coeff \<noteq> Int64 int64_min \<longrightarrow>
            pauli_x n_qubits qubit coeff
              = Inr (Operator
                  [(weight_value coeff, \<lparr>z_bits = replicate n_qubits False,
                                          x_bits = unit_vector n_qubits (nat qubit)\<rparr>)]))
       \<and> (weight_value coeff = 0 \<or> coeff = Int64 int64_min \<longrightarrow>
            pauli_x n_qubits qubit coeff = Inr (Operator []))
       \<and> (\<forall>j<n_qubits.
             factor \<lparr>z_bits = replicate n_qubits False,
                     x_bits = unit_vector n_qubits (nat qubit)\<rparr> j
               = (if j = nat qubit then CHR ''X'' else CHR ''I''))"
proof (intro conjI impI)
  assume "weight_value coeff \<noteq> 0 \<and> coeff \<noteq> Int64 int64_min"
  with assms show "pauli_x n_qubits qubit coeff
      = Inr (Operator
          [(weight_value coeff, \<lparr>z_bits = replicate n_qubits False,
                                  x_bits = unit_vector n_qubits (nat qubit)\<rparr>)])"
    by (simp add: pauli_x_value WeightedPauliOperator_kept)
next
  assume "weight_value coeff = 0 \<or> coeff = Int64 int64_min"
  with assms show "pauli_x n_qubits qubit coeff = Inr (Operator [])"
    by (simp add: pauli_x_value WeightedPauliOperator_dropped)
next
  show "\<forall>j<n_qubits.
      factor \<lparr>z_bits = replicate n_qubits False,
              x_bits = unit_vector n_qubits (nat qubit)\<rparr> j
        = (if j = nat qubit then CHR ''X'' else CHR ''I'')"
    by (simp add: factor_def unit_vector_def)
qed

theorem pauli_x_single_term_witness:
  "pauli_x 2 0 (Number (- 1))
     = Inr (Operator [(- 1, \<lparr>z_bits = [False, False], x_bits = [True, False]\<rparr>)])
   \<and> pauli_x 2 1 (Int64 3)
     = Inr (Operator [(3, \<lparr>z_bits = [False, False], x_bits = [False, True]\<rparr>)])
   \<and> to_label \<lparr>z_bits = [False, False], x_bits = [True, False]\<rparr> = ''IX''"
proof -
  have "Int64 3 \<noteq> Int64 int64_min"
    by (simp add: int64_min_def)
  then have "pauli_x 2 1 (Int64 3)
     = Inr (Operator
         [(weight_value (Int64 3), \<lparr>z_bits = replicate 2 False, x_bits = unit_vector 2 (nat 1)\<rparr>)])"
    using pauli_x_single_term [of 1 2 "Int64 3"] by (simp add: weight_value_def)
  moreover have "pauli_x 2 0 (Number (- 1))
     = Inr (Operator
         [(weight_value (Number (- 1)),
           \<lparr>z_bits = replicate 2 False, x_bits = unit_vector 2 (nat 0)\<rparr>)])"
    using pauli_x_single_term [of 0 2 "Number (- 1)"] by (simp add: weight_value_def)
  ultimately show ?thesis
    by (simp add: unit_vector_def upt_0_2 replicate_2 to_label_def factor_def weight_value_def)
qed

text \<open>With the coefficient zero the claim as stated promises one term of weight zero;
  the operator that the code returns has no term.\<close>

theorem pauli_x_zero_coefficient_counterexample:
  "pauli_x 2 0 (Number 0) = Inr (Operator [])
   \<and> paulis (Operator []) = []"
  by (simp add: pauli_x_value WeightedPauliOperator_dropped weight_value_def)

text \<open>
  Claim C5, amended.  For two different qubit indices within \<open>[0, n_qubits)\<close> and a
  coefficient other than zero (and other than the \<open>int64\<close> \<open>- 2 ^ 63\<close>),
  \<open>product_pauli_z\<close> returns an operator with exactly one weighted term.  Its weight is
  the coefficient, as a complex number, and its Pauli is the product of the Paulis that
  \<open>pauli_z\<close> builds for the two qubits: the z-component is set at exactly the two qubits
  and the x-component is zero, so the Pauli is \<open>\<sigma>\<^sup>Z\<close> on both qubits and the identity
  elsewhere.  For the coefficient zero the constructor removes the term, and the operator
  has none.
\<close>

theorem product_pauli_z_two_qubits:
  assumes "0 \<le> q1" and "q1 < int n_qubits" and "0 \<le> q2" and "q2 < int n_qubits"
    and "q1 \<noteq> q2"
  shows "\<exists>P1 P2 P.
           pauli_z n_qubits q1 (Number 1) = Inr (Operator [(1, P1)])
         \<and> pauli_z n_qubits q2 (Number 1) = Inr (Operator [(1, P2)])
         \<and> pauli_mul P1 P2 = Inr P
         \<and> (weight_value coeff \<noteq> 0 \<and> coeff \<noteq> Int64 int64_min \<longrightarrow>
              product_pauli_z n_qubits q1 q2 coeff = Inr (Operator [(weight_value coeff, P)]))
         \<and> (weight_value coeff = 0 \<or> coeff = Int64 int64_min \<longrightarrow>
              product_pauli_z n_qubits q1 q2 coeff = Inr (Operator []))
         \<and> z_bits P = map (\<lambda>j. j = nat q1 \<or> j = nat q2) [0..<n_qubits]
         \<and> x_bits P = replicate n_qubits False
         \<and> (\<forall>j<n_qubits. factor P j
               = (if j = nat q1 \<or> j = nat q2 then CHR ''Z'' else CHR ''I''))"
proof -
  let ?P1 = "\<lparr>z_bits = unit_vector n_qubits (nat q1), x_bits = replicate n_qubits False\<rparr>"
  let ?P2 = "\<lparr>z_bits = unit_vector n_qubits (nat q2), x_bits = replicate n_qubits False\<rparr>"
  let ?P = "\<lparr>z_bits = map (\<lambda>j. (j = nat q1) \<noteq> (j = nat q2)) [0..<n_qubits],
             x_bits = replicate n_qubits False\<rparr>"
  from assms have ne: "nat q1 \<noteq> nat q2" by simp
  have one: "weight_value (Number 1) = 1" "Number 1 \<noteq> Int64 int64_min"
    by (simp_all add: weight_value_def)
  have p1: "pauli_z n_qubits q1 (Number 1) = Inr (Operator [(1, ?P1)])"
    using assms one by (simp add: pauli_z_value WeightedPauliOperator_kept)
  have p2: "pauli_z n_qubits q2 (Number 1) = Inr (Operator [(1, ?P2)])"
    using assms one by (simp add: pauli_z_value WeightedPauliOperator_kept)
  have mul: "pauli_mul ?P1 ?P2 = Inr ?P"
    by (rule pauli_mul_z_z)
  have kept: "product_pauli_z n_qubits q1 q2 coeff = Inr (Operator [(weight_value coeff, ?P)])"
    if "weight_value coeff \<noteq> 0 \<and> coeff \<noteq> Int64 int64_min"
    using assms that by (simp add: product_pauli_z_value WeightedPauliOperator_kept)
  have dropped: "product_pauli_z n_qubits q1 q2 coeff = Inr (Operator [])"
    if "weight_value coeff = 0 \<or> coeff = Int64 int64_min"
    using assms that by (simp add: product_pauli_z_value WeightedPauliOperator_dropped)
  have z: "z_bits ?P = map (\<lambda>j. j = nat q1 \<or> j = nat q2) [0..<n_qubits]"
    using ne by auto
  have x: "x_bits ?P = replicate n_qubits False"
    by simp
  have f: "\<forall>j<n_qubits. factor ?P j = (if j = nat q1 \<or> j = nat q2 then CHR ''Z'' else CHR ''I'')"
    using ne by (auto simp: factor_def)
  from p1 p2 mul kept dropped z x f show ?thesis
    by blast
qed

theorem product_pauli_z_two_qubits_witness:
  "product_pauli_z 2 0 1 (Int64 (- 1))
     = Inr (Operator [(- 1, \<lparr>z_bits = [True, True], x_bits = [False, False]\<rparr>)])
   \<and> to_label \<lparr>z_bits = [True, True], x_bits = [False, False]\<rparr> = ''ZZ''"
proof -
  have w: "weight_value (Int64 (- 1)) = - 1" "Int64 (- 1) \<noteq> Int64 int64_min"
    by (simp_all add: weight_value_def int64_min_def)
  obtain P where P: "weight_value (Int64 (- 1)) \<noteq> 0 \<and> Int64 (- 1) \<noteq> Int64 int64_min \<longrightarrow>
        product_pauli_z 2 0 1 (Int64 (- 1)) = Inr (Operator [(weight_value (Int64 (- 1)), P)])"
      "z_bits P = map (\<lambda>j. j = nat 0 \<or> j = nat 1) [0..<2]" "x_bits P = replicate 2 False"
    using product_pauli_z_two_qubits [of 0 2 1 "Int64 (- 1)"] by auto
  then have "P = \<lparr>z_bits = [True, True], x_bits = [False, False]\<rparr>"
    by (cases P) (simp add: upt_0_2 replicate_2)
  with P(1) w show ?thesis
    by (simp add: to_label_def factor_def upt_0_2)
qed

text \<open>The notebook itself calls \<open>product_pauli_z(1, 0, - J[1, 0])\<close> with \<open>J[1, 0] = 0\<close>:
  the claim as stated promises the term \<open>0 ZZ\<close>, the operator returned has no term.\<close>

theorem product_pauli_z_zero_coefficient_counterexample:
  "product_pauli_z 2 1 0 (Int64 (- 0)) = Inr (Operator [])
   \<and> paulis (Operator []) = []"
  by (simp add: product_pauli_z_value WeightedPauliOperator_dropped weight_value_def)

lemma diagonal_position:
  assumes "k < (n::nat)"
  shows "k * n + k < n * n"
proof -
  have "k * n + k < k * n + n" using assms by simp
  also have "\<dots> = Suc k * n" by simp
  also have "\<dots> \<le> n * n"
    using assms by (metis Suc_leI mult_le_mono1)
  finally show ?thesis .
qed

lemma Hc_term_diagonal:
  assumes "k < n_qubits"
  shows "Hc_term n_qubits J (k, k)
           = bindr (getitem2 J (int k) (int k))
               (\<lambda>v. Inr (WeightedPauliOperator (Int64 (- v)) (identity_pauli n_qubits)))"
  using assms by (simp add: Hc_term_def product_pauli_z_same)

text \<open>The term of a diagonal pair, as the constructor leaves it.\<close>

lemma negated_entry:
  "WeightedPauliOperator (Int64 (- v)) P =
     (if v = 0 \<or> v = int64_min then Operator []
      else Operator [(of_int (- sint v), P)])"
proof (cases "v = 0 \<or> v = int64_min")
  case True
  then have "weight_value (Int64 (- v)) = 0 \<or> Int64 (- v) = Int64 int64_min"
    by (auto simp: weight_value_def minus_int64_min)
  with True show ?thesis by (simp add: WeightedPauliOperator_dropped)
next
  case False
  then have "weight_value (Int64 (- v)) \<noteq> 0" and "Int64 (- v) \<noteq> Int64 int64_min"
    by (simp_all add: weight_value_Int64_eq_0 minus_eq_int64_min)
  moreover from False have "weight_value (Int64 (- v)) = of_int (- sint v)"
    by (simp add: weight_value_def sint_minus)
  ultimately show ?thesis
    using False by (simp add: WeightedPauliOperator_kept)
qed

lemma Hc_terms_diagonal:
  assumes k: "k < n_qubits" and ts: "Hc_terms n_qubits J = Inr ts"
  shows "ts ! (k * n_qubits + k)
           = WeightedPauliOperator (Int64 (- (J ! k ! k))) (identity_pauli n_qubits)"
proof -
  let ?pairs = "List.product [0..<n_qubits] [0..<n_qubits]"
  have len: "k * n_qubits + k < length ?pairs"
    using diagonal_position [OF k] by simp
  have "?pairs ! (k * n_qubits + k) = (k, k)"
    using len k by (simp add: List.product_nth)
  with comprehension_nth [OF ts [unfolded Hc_terms_def] len]
  have "Hc_term n_qubits J (k, k) = Inr (ts ! (k * n_qubits + k))" by simp
  then have *: "bindr (bindr (getitem J (int k)) (\<lambda>row. getitem row (int k)))
        (\<lambda>v. Inr (WeightedPauliOperator (Int64 (- v)) (identity_pauli n_qubits)))
        = Inr (ts ! (k * n_qubits + k))"
    by (simp add: Hc_term_diagonal [OF k] getitem2_def)
  then obtain row where row: "getitem J (int k) = Inr row"
    by (cases "getitem J (int k)") simp_all
  with * obtain v where v: "getitem row (int k) = Inr v"
    by (cases "getitem row (int k)") simp_all
  from row v have "v = J ! k ! k"
    by (auto dest!: getitem_nat_Inr)
  with * row v show ?thesis by simp
qed

text \<open>
  Claim C9, amended.  On one and the same qubit the two \<open>\<sigma>\<^sup>Z\<close> factors cancel, and the
  Pauli that \<open>product_pauli_z(q, q, c)\<close> builds is the identity.  For \<open>c\<close> other than zero
  (and other than the \<open>int64\<close> \<open>- 2 ^ 63\<close>) the operator returned is the one term \<open>c\<close> times
  the identity; for \<open>c = 0\<close> the constructor removes the term and the operator has none.
  Hence, in the list of terms that is summed to the cost Hamiltonian, the operator of a
  diagonal pair \<open>(q, q)\<close>, which stands at position \<open>q * n_qubits + q\<close>, is the identity
  with coefficient \<open>- J[q, q]\<close> when \<open>J[q, q]\<close> is not zero (and not \<open>- 2 ^ 63\<close>), and has
  no term otherwise.
\<close>

theorem product_pauli_z_diagonal_identity:
  assumes "0 \<le> q" and "q < int n_qubits"
  shows "(weight_value c \<noteq> 0 \<and> c \<noteq> Int64 int64_min \<longrightarrow>
            product_pauli_z n_qubits q q c
              = Inr (Operator [(weight_value c, identity_pauli n_qubits)]))
       \<and> (weight_value c = 0 \<or> c = Int64 int64_min \<longrightarrow>
            product_pauli_z n_qubits q q c = Inr (Operator []))
       \<and> (\<forall>j<n_qubits. factor (identity_pauli n_qubits) j = CHR ''I'')
       \<and> (\<forall>ts. Hc_terms n_qubits J = Inr ts \<longrightarrow>
             ts ! (nat q * n_qubits + nat q)
               = (if J ! nat q ! nat q = 0 \<or> J ! nat q ! nat q = int64_min then Operator []
                  else Operator [(of_int (- sint (J ! nat q ! nat q)),
                                  identity_pauli n_qubits)]))"
proof -
  from assms have k: "nat q < n_qubits" by simp
  have kept: "product_pauli_z n_qubits q q c
      = Inr (Operator [(weight_value c, identity_pauli n_qubits)])"
    if "weight_value c \<noteq> 0 \<and> c \<noteq> Int64 int64_min"
    using assms that by (simp add: product_pauli_z_same WeightedPauliOperator_kept)
  have dropped: "product_pauli_z n_qubits q q c = Inr (Operator [])"
    if "weight_value c = 0 \<or> c = Int64 int64_min"
    using assms that by (simp add: product_pauli_z_same WeightedPauliOperator_dropped)
  have letters: "\<forall>j<n_qubits. factor (identity_pauli n_qubits) j = CHR ''I''"
    by (simp add: factor_def identity_pauli_def)
  have diagonal: "ts ! (nat q * n_qubits + nat q)
      = (if J ! nat q ! nat q = 0 \<or> J ! nat q ! nat q = int64_min then Operator []
         else Operator [(of_int (- sint (J ! nat q ! nat q)), identity_pauli n_qubits)])"
    if ts: "Hc_terms n_qubits J = Inr ts" for ts
    unfolding Hc_terms_diagonal [OF k ts] by (rule negated_entry)
  from kept dropped letters diagonal show ?thesis
    by blast
qed

lemma notebook_Hc_terms:
  "Hc_terms 2 [[0, 1], [0, 0]]
     = Inr [Operator [],
            Operator [(- 1, \<lparr>z_bits = [True, True], x_bits = [False, False]\<rparr>)],
            Operator [],
            Operator []]"
proof -
  have w: "weight_value (Int64 (- 1)) = - 1" "Int64 (- 1) \<noteq> Int64 int64_min"
    by (simp_all add: weight_value_def int64_min_def)
  have "Hc_term 2 [[0, 1], [0, 0]] (0, 0) = Inr (Operator [])"
    "Hc_term 2 [[0, 1], [0, 0]] (0, 1)
       = Inr (Operator [(- 1, \<lparr>z_bits = [True, True], x_bits = [False, False]\<rparr>)])"
    "Hc_term 2 [[0, 1], [0, 0]] (1, 0) = Inr (Operator [])"
    "Hc_term 2 [[0, 1], [0, 0]] (1, 1) = Inr (Operator [])"
    using w
    by (simp_all add: Hc_term_def getitem2_def getitem_def product_pauli_z_value
        WeightedPauliOperator_dropped WeightedPauliOperator_kept weight_value_Int64_eq_0
        upt_0_2 replicate_2)
  then show ?thesis
    by (simp add: Hc_terms_def upt_0_2)
qed

theorem product_pauli_z_diagonal_identity_witness:
  "product_pauli_z 2 1 1 (Number (- 1))
     = Inr (Operator [(- 1, \<lparr>z_bits = [False, False], x_bits = [False, False]\<rparr>)])
   \<and> (\<exists>ts. Hc_terms 2 [[3, 1], [0, 5]] = Inr ts
         \<and> ts ! 3 = Operator [(- 5, \<lparr>z_bits = [False, False], x_bits = [False, False]\<rparr>)])"
proof -
  note inst = product_pauli_z_diagonal_identity [of 1 2 "Number (- 1)" "[[3, 1], [0, 5]]"]
  have id: "identity_pauli 2 = \<lparr>z_bits = [False, False], x_bits = [False, False]\<rparr>"
    by (simp add: identity_pauli_def replicate_2)
  have "\<exists>t. Hc_term 2 [[3, 1], [0, 5]] (i, j) = Inr t" if "i < 2" "j < 2" for i j
  proof -
    have "(i = 0 \<or> i = 1) \<and> (j = 0 \<or> j = 1)" using that by auto
    then show ?thesis
      by (auto simp: Hc_term_def getitem2_def getitem_def product_pauli_z_value)
  qed
  then obtain t00 t01 t10 t11 where "Hc_term 2 [[3, 1], [0, 5]] (0, 0) = Inr t00"
      "Hc_term 2 [[3, 1], [0, 5]] (0, 1) = Inr t01"
      "Hc_term 2 [[3, 1], [0, 5]] (1, 0) = Inr t10"
      "Hc_term 2 [[3, 1], [0, 5]] (1, 1) = Inr t11"
    by (metis one_less_numeral_iff semiring_norm(76) zero_less_numeral)
  then have ts: "Hc_terms 2 [[3, 1], [0, 5]] = Inr [t00, t01, t10, t11]"
    by (simp add: Hc_terms_def upt_0_2)
  have five: "(5 :: 64 word) \<noteq> 0" "(5 :: 64 word) \<noteq> int64_min" "sint (5 :: 64 word) = 5"
    by (simp_all add: int64_min_def)
  from inst ts five have "[t00, t01, t10, t11] ! 3 = Operator [(- 5, identity_pauli 2)]"
    by simp
  moreover from inst have "product_pauli_z 2 1 1 (Number (- 1))
     = Inr (Operator [(- 1, identity_pauli 2)])"
    by (simp add: weight_value_def)
  ultimately show ?thesis
    using ts by (simp add: id)
qed

text \<open>With the coefficient zero the operator returned holds no identity term, and with
  the array \<open>J\<close> of the notebook, whose diagonal is zero, the diagonal pairs contribute no
  term at all to the list that is summed to the cost Hamiltonian.\<close>

theorem diagonal_zero_coefficient_counterexample:
  "product_pauli_z 2 1 1 (Number 0) = Inr (Operator [])
   \<and> Hc_terms 2 [[0, 1], [0, 0]]
       = Inr [Operator [],
              Operator [(- 1, \<lparr>z_bits = [True, True], x_bits = [False, False]\<rparr>)],
              Operator [],
              Operator []]"
  by (simp add: notebook_Hc_terms product_pauli_z_same WeightedPauliOperator_dropped
      weight_value_def)

text \<open>
  Claim C3.  \<open>evolve\<close> returns exactly what one call of the library method returns, for
  the arguments (None, the angle, 1) and the keywords quantum_registers = the register,
  expansion_mode = 'suzuki', expansion_order = 3.  The helper does nothing to the circuit:
  whatever expansion is computed, the library computes it.
\<close>

theorem evolve_is_the_library_call:
  "evolve lib_evolve h t qr
     = lib_evolve h \<lparr>state_in = None, evo_time = t, num_time_slices = 1,
                    quantum_registers = Some qr,
                    expansion_mode = ''suzuki'', expansion_order = 3\<rparr>"
  by (simp add: evolve_def)

section \<open>Sums of circuits\<close>

lemma set_union_regs [simp]: "set (union_regs rs ss) = set rs \<union> set ss"
  by (auto simp: union_regs_def)

lemma union_regs_assoc: "union_regs (union_regs a b) c = union_regs a (union_regs b c)"
  by (auto simp: union_regs_def intro: filter_cong)

lemma compatible_regs_iff:
  "compatible_regs a b \<longleftrightarrow>
     (\<forall>r \<in> set (qregs a) \<union> set (cregs a).
        \<forall>s \<in> set (qregs b) \<union> set (cregs b). same_name_same_reg r s)"
  by (auto simp: compatible_regs_def list_all_iff)

lemma joined_assoc: "joined (joined a b) c = joined a (joined b c)"
  by (simp add: joined_def union_regs_assoc)

lemma compatible_joined_left:
  "compatible_regs (joined a b) c \<longleftrightarrow> compatible_regs a c \<and> compatible_regs b c"
  by (auto simp: compatible_regs_iff joined_def)

lemma compatible_joined_right:
  "compatible_regs a (joined b c) \<longleftrightarrow> compatible_regs a b \<and> compatible_regs a c"
  by (auto simp: compatible_regs_iff joined_def)

text \<open>The sum of circuits is associative, failures included: both sides raise
  \<open>CircuitError\<close> exactly when two of the three circuits clash.\<close>

lemma combine_assoc:
  "bindr (combine b c) (combine a) = bindr (combine a b) (\<lambda>ab. combine ab c)"
  by (auto simp: combine_def compatible_joined_left compatible_joined_right joined_assoc)

lemma only_circuit_error_combine [simp]: "only_circuit_error (combine a b)"
  by (simp add: combine_def only_circuit_error_def)

lemma only_circuit_error_bindr:
  "only_circuit_error m \<Longrightarrow> (\<And>x. only_circuit_error (f x)) \<Longrightarrow> only_circuit_error (bindr m f)"
  by (cases m) (simp_all add: only_circuit_error_def)

lemma only_circuit_error_comprehension:
  "(\<And>x. only_circuit_error (f x)) \<Longrightarrow> only_circuit_error (comprehension f xs)"
proof (induction xs)
  case Nil
  show ?case by (simp add: only_circuit_error_def)
next
  case (Cons x xs)
  show ?case
    unfolding comprehension.simps
    by (intro only_circuit_error_bindr Cons) (simp add: only_circuit_error_def)
qed

text \<open>Two computations that can only fail with the same exception may be swapped.\<close>

lemma bindr_commute:
  assumes "only_circuit_error m1" and "only_circuit_error m2"
  shows "bindr m1 (\<lambda>x. bindr m2 (\<lambda>y. F x y)) = bindr m2 (\<lambda>y. bindr m1 (\<lambda>x. F x y))"
  using assms by (cases m1; cases m2) (simp_all add: only_circuit_error_def)

text \<open>Adding a folded sum to \<open>c\<close> is folding from \<open>c\<close>.\<close>

lemma fold_left_front:
  "bindr (fold_left combine x xs) (combine c) = fold_left combine c (x # xs)"
proof (induction xs arbitrary: x)
  case Nil
  show ?case by (cases "combine c x") simp_all
next
  case (Cons y ys)
  have "bindr (fold_left combine x (y # ys)) (combine c)
      = bindr (combine x y) (\<lambda>xy. bindr (fold_left combine xy ys) (combine c))"
    by (simp add: bindr_assoc)
  also have "\<dots> = bindr (combine x y) (\<lambda>xy. bindr (combine c xy) (\<lambda>d. fold_left combine d ys))"
    by (simp add: Cons.IH)
  also have "\<dots> = bindr (bindr (combine x y) (combine c)) (\<lambda>d. fold_left combine d ys)"
    by (simp add: bindr_assoc)
  also have "\<dots> = bindr (bindr (combine c x) (\<lambda>cx. combine cx y)) (\<lambda>d. fold_left combine d ys)"
    by (simp only: combine_assoc)
  also have "\<dots> = fold_left combine c (x # y # ys)"
    by (simp add: bindr_assoc)
  finally show ?case .
qed

lemma reduce_then_combine:
  assumes "layers \<noteq> []"
  shows "bindr (reduce combine layers) (combine c) = fold_left combine c layers"
proof (cases layers)
  case Nil
  with assms show ?thesis by simp
next
  case (Cons l ls)
  then show ?thesis by (simp add: fold_left_front)
qed

text \<open>Appending the sums \<open>x\<^sub>i + y\<^sub>i\<close> is appending \<open>x\<^sub>0, y\<^sub>0, x\<^sub>1, y\<^sub>1, \<dots>\<close> in turn.\<close>

lemma layers_flatten:
  "bindr (comprehension (\<lambda>i. combine (ec i) (em i)) js) (fold_left combine c)
     = fold_left combine c (concat (map (\<lambda>i. [ec i, em i]) js))"
proof (induction js arbitrary: c)
  case Nil
  show ?case by simp
next
  case (Cons j js)
  let ?rest = "comprehension (\<lambda>i. combine (ec i) (em i)) js"
  let ?flat = "concat (map (\<lambda>i. [ec i, em i]) js)"
  have rest: "only_circuit_error ?rest"
    by (rule only_circuit_error_comprehension) simp
  have swap: "bindr ?rest (\<lambda>ls. bindr (combine c l) (\<lambda>d. fold_left combine d ls))
        = bindr (combine c l) (\<lambda>d. bindr ?rest (\<lambda>ls. fold_left combine d ls))" for l
    by (rule bindr_commute [OF rest only_circuit_error_combine])
  have "bindr (comprehension (\<lambda>i. combine (ec i) (em i)) (j # js)) (fold_left combine c)
      = bindr (combine (ec j) (em j))
          (\<lambda>l. bindr ?rest (\<lambda>ls. bindr (combine c l) (\<lambda>d. fold_left combine d ls)))"
    by (simp add: bindr_assoc)
  also have "\<dots> = bindr (combine (ec j) (em j))
          (\<lambda>l. bindr (combine c l) (\<lambda>d. bindr ?rest (\<lambda>ls. fold_left combine d ls)))"
    by (simp only: swap)
  also have "\<dots> = bindr (combine (ec j) (em j))
          (\<lambda>l. bindr (combine c l) (\<lambda>d. fold_left combine d ?flat))"
    using Cons.IH by simp
  also have "\<dots> = bindr (bindr (combine (ec j) (em j)) (combine c))
          (\<lambda>d. fold_left combine d ?flat)"
    by (simp add: bindr_assoc)
  also have "\<dots> = bindr (bindr (combine c (ec j)) (\<lambda>cx. combine cx (em j)))
          (\<lambda>d. fold_left combine d ?flat)"
    by (simp only: combine_assoc)
  also have "\<dots> = fold_left combine c (concat (map (\<lambda>i. [ec i, em i]) (j # js)))"
    by (simp add: bindr_assoc)
  finally show ?case .
qed

lemma fold_left_combine_data:
  "fold_left combine c xs = Inr d \<Longrightarrow> data d = data c @ concat (map data xs)"
proof (induction xs arbitrary: c)
  case Nil
  then show ?case by simp
next
  case (Cons x xs)
  show ?case
  proof (cases "compatible_regs c x")
    case True
    with Cons.prems have "fold_left combine (joined c x) xs = Inr d"
      using combine_def [of c x] by simp
    from Cons.IH [OF this] show ?thesis by (simp add: joined_def)
  next
    case False
    with Cons.prems show ?thesis using combine_def [of c x] by simp
  qed
qed

text \<open>Circuits on one and the same register never clash: appending them succeeds, and
  the result is on that register.\<close>

lemma fold_left_combine_one_register:
  assumes "qregs c = [r]" and "cregs c = []"
    and "\<And>x. x \<in> set xs \<Longrightarrow> qregs x = [r] \<and> cregs x = []"
  shows "fold_left combine c xs
           = Inr \<lparr>qregs = [r], cregs = [], data = data c @ concat (map data xs)\<rparr>"
  using assms
proof (induction xs arbitrary: c)
  case Nil
  then show ?case by simp
next
  case (Cons x xs)
  from Cons.prems have x: "qregs x = [r]" "cregs x = []" by simp_all
  with Cons.prems(1,2) have step: "combine c x = Inr (joined c x)"
    by (simp add: combine_def compatible_regs_def same_name_same_reg_def)
  have regs: "qregs (joined c x) = [r]" "cregs (joined c x) = []"
    using x Cons.prems(1,2) by (simp_all add: joined_def union_regs_def)
  have rest: "qregs y = [r] \<and> cregs y = []" if "y \<in> set xs" for y
    using that Cons.prems(3) [of y] by simp
  have "fold_left combine (joined c x) xs
      = Inr \<lparr>qregs = [r], cregs = [], data = data (joined c x) @ concat (map data xs)\<rparr>"
    by (rule Cons.IH [OF regs rest])
  with step show ?case
    by (simp add: joined_def)
qed

section \<open>The variational circuit\<close>

lemma layer_value:
  assumes "i < length beta" and "i < length gamma"
    and "evolve lib hc (beta ! i) qr = Inr x" and "evolve lib hm (gamma ! i) qr = Inr y"
  shows "layer lib hc hm qr beta gamma i = combine x y"
  using assms by (simp add: layer_def getitem_nat)

lemma create_circuit_layers:
  assumes p: "0 < p" and lb: "p \<le> length beta" and lg: "p \<le> length gamma"
    and ec: "\<And>i. i < p \<Longrightarrow> evolve lib hc (beta ! i) qr = Inr (ec i)"
    and em: "\<And>i. i < p \<Longrightarrow> evolve lib hm (gamma ! i) qr = Inr (em i)"
  shows "create_circuit lib hc hm qr circuit_init p beta gamma
           = append_all circuit_init (concat (map (\<lambda>i. [ec i, em i]) [0..<p]))"
proof -
  let ?ls = "comprehension (\<lambda>i. combine (ec i) (em i)) [0..<p]"
  have layers: "comprehension (layer lib hc hm qr beta gamma) [0..<p] = ?ls"
  proof (rule comprehension_cong)
    fix i assume "i \<in> set [0..<p]"
    then have "i < p" by simp
    with lb lg show "layer lib hc hm qr beta gamma i = combine (ec i) (em i)"
      by (intro layer_value ec em) simp_all
  qed
  have "create_circuit lib hc hm qr circuit_init p beta gamma
      = bindr ?ls (\<lambda>layers. bindr (reduce combine layers) (combine circuit_init))"
    by (simp add: create_circuit_def layers)
  also have "\<dots> = bindr ?ls (fold_left combine circuit_init)"
  proof (cases ?ls)
    case (Inl e)
    then show ?thesis by simp
  next
    case (Inr layers)
    then have "length layers = p"
      using comprehension_length [of _ "[0..<p]" layers] by simp
    with p have "layers \<noteq> []" by auto
    with Inr show ?thesis by (simp add: reduce_then_combine)
  qed
  also have "\<dots> = fold_left combine circuit_init (concat (map (\<lambda>i. [ec i, em i]) [0..<p]))"
    by (rule layers_flatten)
  finally show ?thesis by (simp add: append_all_def)
qed

lemma create_circuit_no_layers:
  "create_circuit lib hc hm qr circuit_init 0 beta gamma = Inl TypeError"
  by (simp add: create_circuit_def)

lemma same_name_same_reg_refl [simp]: "same_name_same_reg r r"
  by (simp add: same_name_same_reg_def)

lemma sample_run:
  "append_all sample_init
     [\<lparr>qregs = [sample_qr], cregs = [], data = [(''Hc'', 1)]\<rparr>,
      \<lparr>qregs = [sample_qr], cregs = [], data = [(''Hm'', 3)]\<rparr>,
      \<lparr>qregs = [sample_qr], cregs = [], data = [(''Hc'', 2)]\<rparr>,
      \<lparr>qregs = [sample_qr], cregs = [], data = [(''Hm'', 4)]\<rparr>]
   = Inr \<lparr>qregs = [sample_qr], cregs = [],
          data = [(''init'', 0), (''Hc'', 1), (''Hm'', 3), (''Hc'', 2), (''Hm'', 4)]\<rparr>"
  by (simp add: append_all_def combine_def compatible_regs_def joined_def sample_init_def
      union_regs_def)

text \<open>
  Claim C1, amended.  Let \<open>p\<close> be at least 1, let \<open>beta\<close> and \<open>gamma\<close> have at least \<open>p\<close>
  entries, and let \<open>ec i\<close> and \<open>em i\<close> be the evolution circuits that the library returns for
  \<open>Hc\<close> under \<open>beta[i]\<close> and for \<open>Hm\<close> under \<open>gamma[i]\<close>.  Then \<open>create_circuit\<close> returns the
  circuit obtained from \<open>circuit_init\<close> by appending \<open>ec 0\<close>, \<open>em 0\<close>, \<open>ec 1\<close>, \<open>em 1\<close>, and so
  on up to \<open>em (p - 1)\<close>, in this order; a clash of registers raises in both.  The
  instructions of the result are those of \<open>circuit_init\<close> followed by those of the
  evolution circuits in the same order.  When \<open>circuit_init\<close> and the evolution circuits
  are all on the register \<open>qr\<close>, as the library builds them, the function does return,
  and the circuit is on \<open>qr\<close>.
\<close>

theorem create_circuit_appends_layers:
  assumes "0 < p" and "p \<le> length beta" and "p \<le> length gamma"
    and "\<forall>i<p. evolve lib hc (beta ! i) qr = Inr (ec i)"
    and "\<forall>i<p. evolve lib hm (gamma ! i) qr = Inr (em i)"
  shows "create_circuit lib hc hm qr circuit_init p beta gamma
           = append_all circuit_init (concat (map (\<lambda>i. [ec i, em i]) [0..<p]))
       \<and> (\<forall>c. create_circuit lib hc hm qr circuit_init p beta gamma = Inr c \<longrightarrow>
             data c = data circuit_init
                        @ concat (map (\<lambda>i. data (ec i) @ data (em i)) [0..<p]))
       \<and> (qregs circuit_init = [qr] \<and> cregs circuit_init = []
            \<and> (\<forall>i<p. qregs (ec i) = [qr] \<and> cregs (ec i) = []
                      \<and> qregs (em i) = [qr] \<and> cregs (em i) = []) \<longrightarrow>
           create_circuit lib hc hm qr circuit_init p beta gamma
             = Inr \<lparr>qregs = [qr], cregs = [],
                    data = data circuit_init
                             @ concat (map (\<lambda>i. data (ec i) @ data (em i)) [0..<p])\<rparr>)"
proof -
  let ?flat = "concat (map (\<lambda>i. [ec i, em i]) [0..<p])"
  have eq: "create_circuit lib hc hm qr circuit_init p beta gamma = append_all circuit_init ?flat"
    using assms by (intro create_circuit_layers) simp_all
  have flat: "concat (map data (concat (map (\<lambda>i. [ec i, em i]) js)))
          = concat (map (\<lambda>i. data (ec i) @ data (em i)) js)" for js
    by (induction js) simp_all
  have instructions: "data c = data circuit_init
        @ concat (map (\<lambda>i. data (ec i) @ data (em i)) [0..<p])"
    if "create_circuit lib hc hm qr circuit_init p beta gamma = Inr c" for c
    using that eq flat [of "[0..<p]"]
    by (auto simp: append_all_def dest!: fold_left_combine_data)
  have returns: "create_circuit lib hc hm qr circuit_init p beta gamma
             = Inr \<lparr>qregs = [qr], cregs = [],
                    data = data circuit_init
                             @ concat (map (\<lambda>i. data (ec i) @ data (em i)) [0..<p])\<rparr>"
    if init: "qregs circuit_init = [qr]" "cregs circuit_init = []"
      and evs: "\<forall>i<p. qregs (ec i) = [qr] \<and> cregs (ec i) = []
                      \<and> qregs (em i) = [qr] \<and> cregs (em i) = []"
  proof -
    have on_qr: "qregs x = [qr] \<and> cregs x = []" if "x \<in> set ?flat" for x
      using that evs by auto
    have "fold_left combine circuit_init ?flat
        = Inr \<lparr>qregs = [qr], cregs = [], data = data circuit_init @ concat (map data ?flat)\<rparr>"
      by (rule fold_left_combine_one_register [OF init on_qr])
    then show ?thesis by (simp add: eq append_all_def flat)
  qed
  show ?thesis
  proof (intro conjI allI impI)
    show "create_circuit lib hc hm qr circuit_init p beta gamma = append_all circuit_init ?flat"
      by (rule eq)
  next
    fix c
    assume "create_circuit lib hc hm qr circuit_init p beta gamma = Inr c"
    then show "data c = data circuit_init
        @ concat (map (\<lambda>i. data (ec i) @ data (em i)) [0..<p])"
      by (rule instructions)
  next
    assume h: "qregs circuit_init = [qr] \<and> cregs circuit_init = []
            \<and> (\<forall>i<p. qregs (ec i) = [qr] \<and> cregs (ec i) = []
                      \<and> qregs (em i) = [qr] \<and> cregs (em i) = [])"
    then have "qregs circuit_init = [qr]" and "cregs circuit_init = []"
      and "\<forall>i<p. qregs (ec i) = [qr] \<and> cregs (ec i) = []
                      \<and> qregs (em i) = [qr] \<and> cregs (em i) = []"
      by simp_all
    then show "create_circuit lib hc hm qr circuit_init p beta gamma
             = Inr \<lparr>qregs = [qr], cregs = [],
                    data = data circuit_init
                             @ concat (map (\<lambda>i. data (ec i) @ data (em i)) [0..<p])\<rparr>"
      by (rule returns)
  qed
qed

theorem create_circuit_appends_layers_witness:
  "create_circuit sample_evolve ''Hc'' ''Hm'' sample_qr sample_init 2 [1, 2] [3, 4]
     = Inr \<lparr>qregs = [sample_qr], cregs = [],
            data = [(''init'', 0), (''Hc'', 1), (''Hm'', 3), (''Hc'', 2), (''Hm'', 4)]\<rparr>"
proof -
  let ?ec = "\<lambda>i. \<lparr>qregs = [sample_qr], cregs = [], data = [(''Hc'', [1, 2::real] ! i)]\<rparr>"
  let ?em = "\<lambda>i. \<lparr>qregs = [sample_qr], cregs = [], data = [(''Hm'', [3, 4::real] ! i)]\<rparr>"
  have "create_circuit sample_evolve ''Hc'' ''Hm'' sample_qr sample_init 2 [1, 2] [3, 4]
      = append_all sample_init (concat (map (\<lambda>i. [?ec i, ?em i]) [0..<2]))"
    using create_circuit_appends_layers
      [of 2 "[1, 2]" "[3, 4]" sample_evolve "''Hc''" sample_qr ?ec "''Hm''" ?em sample_init]
    by (simp add: evolve_def sample_evolve_def)
  then show ?thesis
    by (simp add: upt_0_2 sample_run)
qed

text \<open>With \<open>p = 0\<close> and empty arrays the claim as stated promises \<open>circuit_init\<close> with
  nothing appended; the code folds an empty list of layers with \<open>reduce\<close> and raises
  TypeError.\<close>

theorem create_circuit_no_layers_counterexample:
  "create_circuit sample_evolve ''Hc'' ''Hm'' sample_qr sample_init 0 [] [] = Inl TypeError
   \<and> append_all sample_init [] = Inr sample_init"
  by (simp add: create_circuit_no_layers append_all_def)

text \<open>
  Claim C2, amended.  Let \<open>p\<close> be at least 1 and \<open>beta_gamma\<close> have length \<open>2 * p\<close>.
  \<open>evaluate_circuit\<close> passes the first \<open>p\<close> entries and the last \<open>p\<close> entries to
  \<open>create_circuit\<close>; when that circuit is built, simulated to the state \<open>psi\<close>, and the
  library returns the pair \<open>r\<close> for the cost Hamiltonian in \<open>psi\<close>, the result is the real
  part of the first component of \<open>r\<close>, the expectation value: a real number.
\<close>

theorem evaluate_circuit_expectation:
  assumes "0 < p" and "length beta_gamma = 2 * p"
    and "\<forall>i<p. evolve lib hc (beta_gamma ! i) qr = Inr (ec i)"
    and "\<forall>i<p. evolve lib hm (beta_gamma ! (p + i)) qr = Inr (em i)"
    and "append_all circuit_init (concat (map (\<lambda>i. [ec i, em i]) [0..<p])) = Inr circuit"
    and "get_statevector circuit = Inr psi"
    and "evaluate_with_statevector hc psi = Inr r"
  shows "create_circuit lib hc hm qr circuit_init p (take p beta_gamma) (drop p beta_gamma)
           = Inr circuit
       \<and> evaluate_circuit lib get_statevector evaluate_with_statevector
             hc hm qr circuit_init p beta_gamma = Inr (Re (fst r))"
proof -
  from assms(2) have half: "length beta_gamma div 2 = p" by simp
  have "create_circuit lib hc hm qr circuit_init p (take p beta_gamma) (drop p beta_gamma)
      = append_all circuit_init (concat (map (\<lambda>i. [ec i, em i]) [0..<p]))"
    using assms(1-4) by (intro create_circuit_layers) simp_all
  with assms(5) have "create_circuit lib hc hm qr circuit_init p
      (take p beta_gamma) (drop p beta_gamma) = Inr circuit"
    by simp
  with assms(6,7) show ?thesis
    by (simp add: evaluate_circuit_def half)
qed

theorem evaluate_circuit_expectation_witness:
  "evaluate_circuit sample_evolve sample_statevector sample_expectation
     ''Hc'' ''Hm'' sample_qr sample_init 2 [1, 2, 3, 4] = Inr 10"
proof -
  let ?ec = "\<lambda>i. \<lparr>qregs = [sample_qr], cregs = [], data = [(''Hc'', [1, 2::real] ! i)]\<rparr>"
  let ?em = "\<lambda>i. \<lparr>qregs = [sample_qr], cregs = [], data = [(''Hm'', [3, 4::real] ! i)]\<rparr>"
  let ?c = "\<lparr>qregs = [sample_qr], cregs = [],
            data = [(''init'', 0::real), (''Hc'', 1), (''Hm'', 3), (''Hc'', 2), (''Hm'', 4)]\<rparr>"
  have evolutions:
    "\<forall>i<2. evolve sample_evolve ''Hc'' ([1, 2, 3, 4] ! i) sample_qr = Inr (?ec i)"
    "\<forall>i<2. evolve sample_evolve ''Hm'' ([1, 2, 3, 4] ! (2 + i)) sample_qr = Inr (?em i)"
    by (auto simp: evolve_def sample_evolve_def less_2_cases_iff)
  have built: "append_all sample_init (concat (map (\<lambda>i. [?ec i, ?em i]) [0..<2])) = Inr ?c"
    by (simp add: upt_0_2 sample_run)
  have "evaluate_circuit sample_evolve sample_statevector sample_expectation
     ''Hc'' ''Hm'' sample_qr sample_init 2 [1, 2, 3, 4] = Inr (Re (fst (10 + \<i>, 0)))"
    using evaluate_circuit_expectation
      [of 2 "[1, 2, 3, 4]" sample_evolve "''Hc''" sample_qr ?ec "''Hm''" ?em sample_init ?c
          sample_statevector "[0, 1, 3, 2, 4]" sample_expectation "(10 + \<i>, 0)",
       OF _ _ evolutions built]
    by (simp add: sample_statevector_def sample_expectation_def)
  then show ?thesis by simp
qed

text \<open>With \<open>p = 0\<close> and the empty parameter vector no real number is returned:
  \<open>create_circuit\<close> raises TypeError and so does \<open>evaluate_circuit\<close>.\<close>

theorem evaluate_circuit_no_layers_counterexample:
  "evaluate_circuit sample_evolve sample_statevector sample_expectation
     ''Hc'' ''Hm'' sample_qr sample_init 0 [] = Inl TypeError"
  by (simp add: evaluate_circuit_def create_circuit_no_layers)

section \<open>Computations in the state of the library\<close>

lemma fst_pure_st [simp]: "fst (pure_st r s) = r"
  by (simp add: pure_st_def)

lemma fst_bind_st:
  assumes "\<And>s. fst (m s) = r" and "\<And>x s. fst (f x s) = g x"
  shows "fst (bind_st m f s) = bindr r g"
proof (cases "m s")
  case (Pair res s1)
  with assms(1) [of s] have res: "res = r" by simp
  show ?thesis
    by (cases r) (simp_all add: bind_st_def Pair res assms(2))
qed

lemma QuantumRegister_positive:
  "0 < n \<Longrightarrow> QuantumRegister n s =
     (Inr \<lparr>reg_kind = Quantum, reg_name = ''q'' @ string_of_nat (q_instances s), reg_size = n\<rparr>,
      s\<lparr>q_instances := q_instances s + 1\<rparr>)"
  by (simp add: QuantumRegister_def)

lemma ClassicalRegister_positive:
  "0 < n \<Longrightarrow> ClassicalRegister n s =
     (Inr \<lparr>reg_kind = Classical, reg_name = ''c'' @ string_of_nat (c_instances s), reg_size = n\<rparr>,
      s\<lparr>c_instances := c_instances s + 1\<rparr>)"
  by (simp add: ClassicalRegister_def)

text \<open>The name of an anonymous register determines the count it was made from.\<close>

lemma digit_value_digit_char: "d < 10 \<Longrightarrow> digit_value (digit_char d) = d"
proof -
  assume "d < 10"
  then have "d \<in> {0, 1, 2, 3, 4, 5, 6, 7, 8, 9}" by auto
  then show ?thesis
    by (auto simp: digit_value_def digit_char_def)
qed

lemma nat_of_string_snoc:
  "nat_of_string (cs @ [c]) = 10 * nat_of_string cs + digit_value c"
  by (simp add: nat_of_string_def)

lemma nat_of_string_of_nat: "nat_of_string (string_of_nat n) = n"
proof (induction n rule: string_of_nat.induct)
  case (1 n)
  show ?case
  proof (cases "n < 10")
    case True
    then show ?thesis
      by (simp add: string_of_nat.simps [of n] nat_of_string_def digit_value_digit_char)
  next
    case False
    with 1 have "nat_of_string (string_of_nat (n div 10)) = n div 10" by simp
    with False show ?thesis
      by (simp add: string_of_nat.simps [of n] nat_of_string_snoc digit_value_digit_char)
  qed
qed

lemma string_of_nat_inject: "string_of_nat m = string_of_nat n \<longleftrightarrow> m = n"
  by (metis nat_of_string_of_nat)

section \<open>The thermal-state circuit\<close>

lemma rotations_and_cnots:
  "foldl (\<lambda>circ i. circuit_cx (a i) (b i) (circuit_rx theta (a i) circ)) c js
     = c\<lparr>data := data c @ concat (map (\<lambda>i. [RX_gate theta (a i), CX_gate (a i) (b i)]) js)\<rparr>"
  by (induction js arbitrary: c) (simp_all add: circuit_rx_def circuit_cx_def)

text \<open>With no qubits the register has size zero and the library refuses it.\<close>

lemma prepare_init_circuit_no_qubits:
  "prepare_init_circuit 0 beta s = (Inl CircuitError, s)"
  by (simp add: prepare_init_circuit_def bind_st_def QuantumRegister_def)

lemma prepare_init_circuit_value:
  assumes "0 < n_qubits"
  shows "prepare_init_circuit n_qubits beta s =
     (Inr (thermal_circuit_on n_qubits beta (thermal_reg n_qubits s)),
      s\<lparr>q_instances := q_instances s + 1\<rparr>)"
  using assms
  by (simp add: prepare_init_circuit_def bind_st_def pure_st_def QuantumRegister_positive
      QuantumCircuit_def Let_def rotations_and_cnots thermal_reg_def thermal_circuit_on_def)

text \<open>Every bit of the circuit lies within the register: no \<open>qr[k]\<close> of the loop is out
  of range.\<close>

lemma thermal_circuit_on_well_formed:
  "reg_size r = n_qubits * 2 \<Longrightarrow> well_formed (thermal_circuit_on n_qubits beta r)"
  by (simp add: thermal_circuit_on_def well_formed_def list_all_iff)

lemma thermal_reg_size: "reg_size (thermal_reg n_qubits s) = n_qubits * 2"
  by (simp add: thermal_reg_def)

lemma prepare_init_circuit_well_formed:
  assumes "fst (prepare_init_circuit n_qubits beta s) = Inr c"
  shows "well_formed c"
proof (cases "n_qubits = 0")
  case True
  with assms show ?thesis
    by (simp add: prepare_init_circuit_no_qubits)
next
  case False
  with assms have "c = thermal_circuit_on n_qubits beta (thermal_reg n_qubits s)"
    by (simp add: prepare_init_circuit_value)
  then show ?thesis
    by (simp add: thermal_circuit_on_well_formed thermal_reg_size)
qed

lemma erase_thermal_circuit_on:
  "erase_names (thermal_circuit_on n_qubits beta r)
     = thermal_circuit_on n_qubits beta (erase_reg r)"
  by (simp add: thermal_circuit_on_def erase_names_def map_concat comp_def)

lemma erase_thermal_reg:
  "erase_reg (thermal_reg n_qubits s)
     = \<lparr>reg_kind = Quantum, reg_name = [], reg_size = n_qubits * 2\<rparr>"
  by (simp add: erase_reg_def thermal_reg_def)

lemma thermal_reg_inject:
  "thermal_reg n_qubits s = thermal_reg n_qubits s' \<longleftrightarrow> q_instances s = q_instances s'"
  by (simp add: thermal_reg_def string_of_nat_inject)

lemma thermal_circuit_on_inject:
  "thermal_circuit_on n_qubits beta r = thermal_circuit_on n_qubits beta r' \<longleftrightarrow> r = r'"
  by (auto simp: thermal_circuit_on_def)

lemma thermal_circuit_on_1_0:
  "thermal_circuit_on 1 0 r =
     \<lparr>qregs = [r], cregs = [], data = [RX_gate (pi / 2) (r, 1), CX_gate (r, 1) (r, 0)]\<rparr>"
  by (simp add: thermal_circuit_on_def arctan_one)

lemma thermal_circuit:
  "fst (prepare_init_circuit 1 0 s) = Inr (thermal_circuit_on 1 0 (thermal_reg 1 s))"
  by (simp add: prepare_init_circuit_value)

lemma sqrt2_square: "complex_of_real (sqrt 2) * complex_of_real (sqrt 2) = 2"
  by (metis of_real_mult of_real_numeral real_sqrt_mult_self abs_numeral)

lemma two_over_sqrt2: "2 / complex_of_real (sqrt 2) = complex_of_real (sqrt 2)"
  using sqrt2_square by (simp add: divide_eq_eq)

lemma times_two_over_sqrt2: "c * 2 / complex_of_real (sqrt 2) = c * complex_of_real (sqrt 2)"
  using two_over_sqrt2 by (metis times_divide_eq_right)

lemma thermal_statevector:
  "statevector (thermal_circuit_on 1 0 (thermal_reg 1 s))
     = Some [complex_of_real (1 / sqrt 2), 0, 0, - \<i> * complex_of_real (1 / sqrt 2)]"
  unfolding thermal_circuit_on_1_0
  by (simp add: statevector_def run_def initial_branch_def num_bits_def upt_0_4
      thermal_reg_size bit_index_def apply_1q_def RX_matrix_def apply_cx_def bit_of_def
      cos_45 sin_45 two_over_sqrt2 times_two_over_sqrt2)

text \<open>
  Claim C10.  The grading assertion of the third exercise holds for the circuit that
  \<open>prepare_init_circuit(0)\<close> returns with \<open>n_qubits = 1\<close>: the call returns a circuit, and
  its amplitudes are \<open>1/\<surd>2, 0, 0, -\<i>/\<surd>2\<close>, the state \<open>(|00\<rangle> - \<i> |11\<rangle>) / \<surd>2\<close>,
  whatever name the register has.
\<close>

theorem exercise3_amplitudes:
  "\<exists>c. fst (prepare_init_circuit 1 0 s) = Inr c
     \<and> get_amplitudes c
         = Some [complex_of_real (1 / sqrt 2), 0, 0, - \<i> * complex_of_real (1 / sqrt 2)]
     \<and> exercise3_assertion c = Some True"
proof (intro exI conjI)
  show "fst (prepare_init_circuit 1 0 s) = Inr (thermal_circuit_on 1 0 (thermal_reg 1 s))"
    by (rule thermal_circuit)
  show "get_amplitudes (thermal_circuit_on 1 0 (thermal_reg 1 s))
          = Some [complex_of_real (1 / sqrt 2), 0, 0, - \<i> * complex_of_real (1 / sqrt 2)]"
    unfolding get_amplitudes_def by (rule thermal_statevector)
  show "exercise3_assertion (thermal_circuit_on 1 0 (thermal_reg 1 s)) = Some True"
    unfolding exercise3_assertion_def get_amplitudes_def thermal_statevector
    by (simp add: np_allclose_def)
qed

text \<open>The density matrix of the state, as the notebook displays it.\<close>

lemma thermal_density_matrix:
  "to_density_matrix (thermal_circuit_on 1 0 (thermal_reg 1 s))
     = Some [[1 / 2, 0, 0, \<i> / 2],
             [0, 0, 0, 0],
             [0, 0, 0, 0],
             [- \<i> / 2, 0, 0, 1 / 2]]"
  unfolding to_density_matrix_def thermal_statevector
  by (simp add: outer_def sqrt2_square)

text \<open>
  Claim C6.  The call \<open>prepare_init_circuit(0)\<close> with \<open>n_qubits = 1\<close> returns a circuit,
  and the density matrix of its state, with the ancilla, qubit 1, traced out, is the
  maximally mixed state of one qubit: \<open>1/2\<close> on the diagonal and \<open>0\<close> off it.
\<close>

theorem thermal_state_maximally_mixed:
  "\<exists>c. fst (prepare_init_circuit 1 0 s) = Inr c
     \<and> map_option (\<lambda>dm. partial_trace dm [1]) (to_density_matrix c)
         = Some [[1 / 2, 0], [0, 1 / 2]]"
proof (intro exI conjI)
  show "fst (prepare_init_circuit 1 0 s) = Inr (thermal_circuit_on 1 0 (thermal_reg 1 s))"
    by (rule thermal_circuit)
  show "map_option (\<lambda>dm. partial_trace dm [1])
          (to_density_matrix (thermal_circuit_on 1 0 (thermal_reg 1 s)))
        = Some [[1 / 2, 0], [0, 1 / 2]]"
    unfolding to_density_matrix_def thermal_statevector
    by (simp add: outer_def partial_trace_def trace_out_def insert_bit_def upt_0_2
        sqrt2_square)
qed

section \<open>The helpers and the state of the library\<close>

text \<open>When the result of the library's \<open>evolve\<close> method does not depend on the state of the
  library, the results of \<open>evolve\<close> and \<open>create_circuit\<close> do not either: they are the results
  computed without a state.\<close>

lemma evolve_st_result:
  assumes "\<And>h a u. fst (lib h a u) = res h a"
  shows "fst (evolve_st lib h t qr s) = evolve res h t qr"
  by (simp add: evolve_st_def evolve_def assms)

lemma layer_st_result:
  assumes "\<And>h a u. fst (lib h a u) = res h a"
  shows "fst (layer_st lib hc hm qr beta gamma i s) = layer res hc hm qr beta gamma i"
  unfolding layer_st_def layer_def
  by (intro fst_bind_st fst_pure_st evolve_st_result assms)

lemma comprehension_st_result:
  assumes "\<And>x u. fst (f x u) = g x"
  shows "fst (comprehension_st f xs s) = comprehension g xs"
proof (induction xs arbitrary: s)
  case Nil
  show ?case by simp
next
  case (Cons x xs)
  show ?case
    unfolding comprehension_st.simps comprehension.simps
    by (intro fst_bind_st fst_pure_st assms Cons.IH)
qed

lemma create_circuit_st_result:
  assumes "\<And>h a u. fst (lib h a u) = res h a"
  shows "fst (create_circuit_st lib hc hm qr circuit_init p beta gamma s)
           = create_circuit res hc hm qr circuit_init p beta gamma"
proof -
  have layers: "fst (comprehension_st (layer_st lib hc hm qr beta gamma) [0..<p] u)
                  = comprehension (layer res hc hm qr beta gamma) [0..<p]" for u
    by (rule comprehension_st_result) (rule layer_st_result [OF assms])
  show ?thesis
    unfolding create_circuit_st_def create_circuit_def
    by (intro fst_bind_st fst_pure_st layers)
qed

lemma sample_evolve_st_result: "fst (sample_evolve_st h a u) = sample_evolve h a"
  by (simp add: sample_evolve_st_def)

lemma sample_one_layer:
  "create_circuit sample_evolve ''Hc'' ''Hm'' sample_qr sample_init 1 [1 / 2] [1 / 4]
     = Inr \<lparr>qregs = [sample_qr], cregs = [],
            data = [(''init'', 0), (''Hc'', 1 / 2), (''Hm'', 1 / 4)]\<rparr>"
  by (simp add: create_circuit_def layer_def evolve_def sample_evolve_def getitem_def
      combine_def compatible_regs_def joined_def union_regs_def sample_init_def Let_def)

lemma name_q2: "string_of_nat 2 = ''2''"
  by (simp add: string_of_nat.simps digit_char_def)

lemma name_q3: "string_of_nat 3 = ''3''"
  by (simp add: string_of_nat.simps digit_char_def)

text \<open>
  Claim C7, amended.  \<open>prepare_init_circuit\<close> allocates an anonymous register, whose name
  is the prefix \<open>q\<close> followed by the library's count of anonymous quantum registers.  With
  \<open>n_qubits = 0\<close> the call raises CircuitError and leaves the count as it was.  With
  \<open>n_qubits\<close> positive, two calls with equal arguments and equal \<open>n_qubits\<close> both return a
  circuit; the two circuits are equal once the register names are erased, and they are
  equal outright exactly when the count is the same at the two calls.  \<open>evolve\<close> and
  \<open>create_circuit\<close> create no register of their own: when the result of the library's
  \<open>evolve\<close> method does not depend on the state of the library, equal arguments and equal
  globals give equal results in any two states, the results computed without a state.
  \<open>pauli_x\<close>, \<open>pauli_z\<close> and \<open>product_pauli_z\<close> read their arguments and \<open>n_qubits\<close> only:
  each result is given as an expression in these, IndexError outside the range of
  Python's indices included.
\<close>

theorem helpers_deterministic_up_to_register_name:
  "(n_qubits = 0 \<longrightarrow> prepare_init_circuit n_qubits beta s = (Inl CircuitError, s))
   \<and> (0 < n_qubits \<longrightarrow>
        (\<exists>c c'. fst (prepare_init_circuit n_qubits beta s) = Inr c
               \<and> fst (prepare_init_circuit n_qubits beta s') = Inr c'
               \<and> erase_names c = erase_names c'
               \<and> (c = c' \<longleftrightarrow> q_instances s = q_instances s')
               \<and> map reg_name (qregs c) = [''q'' @ string_of_nat (q_instances s)]))
   \<and> ((\<forall>h a u u'. fst (lib h a u) = fst (lib h a u')) \<longrightarrow>
        fst (evolve_st lib hc t qr s) = fst (evolve_st lib hc t qr s')
      \<and> fst (evolve_st lib hc t qr s) = evolve (\<lambda>h a. fst (lib h a s)) hc t qr
      \<and> fst (create_circuit_st lib hc hm qr circuit_init p b g s)
          = fst (create_circuit_st lib hc hm qr circuit_init p b g s')
      \<and> fst (create_circuit_st lib hc hm qr circuit_init p b g s)
          = create_circuit (\<lambda>h a. fst (lib h a s)) hc hm qr circuit_init p b g)
   \<and> pauli_x n q1 coeff =
       (if - int n \<le> q1 \<and> q1 < int n
        then Inr (WeightedPauliOperator coeff
                    \<lparr>z_bits = replicate n False,
                     x_bits = unit_vector n (nat (q1 mod int n))\<rparr>)
        else Inl IndexError)
   \<and> pauli_z n q1 coeff =
       (if - int n \<le> q1 \<and> q1 < int n
        then Inr (WeightedPauliOperator coeff
                    \<lparr>z_bits = unit_vector n (nat (q1 mod int n)),
                     x_bits = replicate n False\<rparr>)
        else Inl IndexError)
   \<and> product_pauli_z n q1 q2 coeff =
       (if - int n \<le> q1 \<and> q1 < int n \<and> - int n \<le> q2 \<and> q2 < int n
        then Inr (WeightedPauliOperator coeff
                    \<lparr>z_bits = map (\<lambda>j. (j = nat (q1 mod int n)) \<noteq> (j = nat (q2 mod int n)))
                                [0..<n],
                     x_bits = replicate n False\<rparr>)
        else Inl IndexError)"
proof -
  have none: "n_qubits = 0 \<longrightarrow> prepare_init_circuit n_qubits beta s = (Inl CircuitError, s)"
    by (simp add: prepare_init_circuit_no_qubits)
  have some: "0 < n_qubits \<longrightarrow>
        (\<exists>c c'. fst (prepare_init_circuit n_qubits beta s) = Inr c
               \<and> fst (prepare_init_circuit n_qubits beta s') = Inr c'
               \<and> erase_names c = erase_names c'
               \<and> (c = c' \<longleftrightarrow> q_instances s = q_instances s')
               \<and> map reg_name (qregs c) = [''q'' @ string_of_nat (q_instances s)])"
  proof
    assume pos: "0 < n_qubits"
    let ?c = "thermal_circuit_on n_qubits beta (thermal_reg n_qubits s)"
    let ?c' = "thermal_circuit_on n_qubits beta (thermal_reg n_qubits s')"
    have first: "fst (prepare_init_circuit n_qubits beta s) = Inr ?c"
      and second: "fst (prepare_init_circuit n_qubits beta s') = Inr ?c'"
      using pos by (simp_all add: prepare_init_circuit_value)
    have erased: "erase_names ?c = erase_names ?c'"
      by (simp add: erase_thermal_circuit_on erase_thermal_reg)
    have equal: "?c = ?c' \<longleftrightarrow> q_instances s = q_instances s'"
      by (simp add: thermal_circuit_on_inject thermal_reg_inject)
    have named: "map reg_name (qregs ?c) = [''q'' @ string_of_nat (q_instances s)]"
      by (simp add: thermal_circuit_on_def thermal_reg_def)
    show "\<exists>c c'. fst (prepare_init_circuit n_qubits beta s) = Inr c
               \<and> fst (prepare_init_circuit n_qubits beta s') = Inr c'
               \<and> erase_names c = erase_names c'
               \<and> (c = c' \<longleftrightarrow> q_instances s = q_instances s')
               \<and> map reg_name (qregs c) = [''q'' @ string_of_nat (q_instances s)]"
      by (intro exI conjI) (rule first, rule second, rule erased, rule equal, rule named)
  qed
  have stateless: "(\<forall>h a u u'. fst (lib h a u) = fst (lib h a u')) \<longrightarrow>
        fst (evolve_st lib hc t qr s) = fst (evolve_st lib hc t qr s')
      \<and> fst (evolve_st lib hc t qr s) = evolve (\<lambda>h a. fst (lib h a s)) hc t qr
      \<and> fst (create_circuit_st lib hc hm qr circuit_init p b g s)
          = fst (create_circuit_st lib hc hm qr circuit_init p b g s')
      \<and> fst (create_circuit_st lib hc hm qr circuit_init p b g s)
          = create_circuit (\<lambda>h a. fst (lib h a s)) hc hm qr circuit_init p b g"
  proof
    assume "\<forall>h a u u'. fst (lib h a u) = fst (lib h a u')"
    then have res: "fst (lib h a u) = fst (lib h a s)" for h a u
      by blast
    have "fst (evolve_st lib hc t qr u) = evolve (\<lambda>h a. fst (lib h a s)) hc t qr" for u
      by (rule evolve_st_result) (rule res)
    moreover have "fst (create_circuit_st lib hc hm qr circuit_init p b g u)
          = create_circuit (\<lambda>h a. fst (lib h a s)) hc hm qr circuit_init p b g" for u
      by (rule create_circuit_st_result) (rule res)
    ultimately show "fst (evolve_st lib hc t qr s) = fst (evolve_st lib hc t qr s')
      \<and> fst (evolve_st lib hc t qr s) = evolve (\<lambda>h a. fst (lib h a s)) hc t qr
      \<and> fst (create_circuit_st lib hc hm qr circuit_init p b g s)
          = fst (create_circuit_st lib hc hm qr circuit_init p b g s')
      \<and> fst (create_circuit_st lib hc hm qr circuit_init p b g s)
          = create_circuit (\<lambda>h a. fst (lib h a s)) hc hm qr circuit_init p b g"
      by simp
  qed
  from none some stateless pauli_x_any [of n q1 coeff] pauli_z_any [of n q1 coeff]
    product_pauli_z_any [of n q1 q2 coeff]
  show ?thesis
    by blast
qed

theorem helpers_deterministic_up_to_register_name_witness:
  "prepare_init_circuit 0 0 (session 2 0) = (Inl CircuitError, session 2 0)
   \<and> (\<exists>c c'. fst (prepare_init_circuit 1 0 (session 2 0)) = Inr c
            \<and> fst (prepare_init_circuit 1 0 (session 3 0)) = Inr c'
            \<and> erase_names c = erase_names c'
            \<and> map reg_name (qregs c) = [''q2''])
   \<and> (\<exists>c. fst (prepare_init_circuit 1 0 (session 2 0)) = Inr c
          \<and> fst (prepare_init_circuit 1 0 (session 2 7)) = Inr c)
   \<and> fst (create_circuit_st sample_evolve_st ''Hc'' ''Hm'' sample_qr sample_init 1
            [1 / 2] [1 / 4] (session 2 0))
       = fst (create_circuit_st sample_evolve_st ''Hc'' ''Hm'' sample_qr sample_init 1
               [1 / 2] [1 / 4] (session 9 4))
   \<and> fst (create_circuit_st sample_evolve_st ''Hc'' ''Hm'' sample_qr sample_init 1
            [1 / 2] [1 / 4] (session 2 0))
       = Inr \<lparr>qregs = [sample_qr], cregs = [],
              data = [(''init'', 0), (''Hc'', 1 / 2), (''Hm'', 1 / 4)]\<rparr>"
proof -
  have none: "prepare_init_circuit 0 0 (session 2 0) = (Inl CircuitError, session 2 0)"
    using helpers_deterministic_up_to_register_name [of 0 0 "session 2 0", THEN conjunct1]
    by simp
  have differ: "\<exists>c c'. fst (prepare_init_circuit 1 0 (session 2 0)) = Inr c
            \<and> fst (prepare_init_circuit 1 0 (session 3 0)) = Inr c'
            \<and> erase_names c = erase_names c'
            \<and> map reg_name (qregs c) = [''q2'']"
    using helpers_deterministic_up_to_register_name
      [of 1 0 "session 2 0" "session 3 0", THEN conjunct2, THEN conjunct1]
    by (auto simp: session_def name_q2)
  have same: "\<exists>c. fst (prepare_init_circuit 1 0 (session 2 0)) = Inr c
          \<and> fst (prepare_init_circuit 1 0 (session 2 7)) = Inr c"
    using helpers_deterministic_up_to_register_name
      [of 1 0 "session 2 0" "session 2 7", THEN conjunct2, THEN conjunct1]
    by (auto simp: session_def)
  have stateless: "\<forall>h a u u'. fst (sample_evolve_st h a u) = fst (sample_evolve_st h a u')"
    by (simp add: sample_evolve_st_def)
  have sample: "(\<lambda>h a. fst (sample_evolve_st h a (session 2 0))) = sample_evolve"
    by (simp add: sample_evolve_st_def)
  from stateless
    helpers_deterministic_up_to_register_name
      [where lib = sample_evolve_st and hc = "''Hc''" and hm = "''Hm''" and qr = sample_qr
         and circuit_init = sample_init and p = 1 and b = "[1 / 2]" and g = "[1 / 4]"
         and s = "session 2 0" and s' = "session 9 4",
       THEN conjunct2, THEN conjunct2, THEN conjunct1]
  have "fst (create_circuit_st sample_evolve_st ''Hc'' ''Hm'' sample_qr sample_init 1
            [1 / 2] [1 / 4] (session 2 0))
       = fst (create_circuit_st sample_evolve_st ''Hc'' ''Hm'' sample_qr sample_init 1
               [1 / 2] [1 / 4] (session 9 4))"
    and "fst (create_circuit_st sample_evolve_st ''Hc'' ''Hm'' sample_qr sample_init 1
            [1 / 2] [1 / 4] (session 2 0))
       = create_circuit (\<lambda>h a. fst (sample_evolve_st h a (session 2 0))) ''Hc'' ''Hm''
           sample_qr sample_init 1 [1 / 2] [1 / 4]"
    by blast+
  with none differ same show ?thesis
    unfolding sample sample_one_layer by blast
qed

text \<open>Two calls in a row, with the same argument and the same \<open>n_qubits\<close>, in a session
  that has created two anonymous registers before: the first circuit is on a register
  named \<open>q2\<close>, the second on one named \<open>q3\<close>, and the circuits differ.\<close>

theorem prepare_init_circuit_twice_counterexample:
  "fst (prepare_init_circuit 1 0 (session 2 0))
     \<noteq> fst (prepare_init_circuit 1 0 (snd (prepare_init_circuit 1 0 (session 2 0))))
   \<and> (\<exists>c c'. fst (prepare_init_circuit 1 0 (session 2 0)) = Inr c
            \<and> fst (prepare_init_circuit 1 0 (snd (prepare_init_circuit 1 0 (session 2 0))))
                = Inr c'
            \<and> map reg_name (qregs c) = [''q2'']
            \<and> map reg_name (qregs c') = [''q3''])"
  by (simp add: prepare_init_circuit_value thermal_circuit_on_def thermal_reg_def session_def
      name_q2 name_q3)

section \<open>The circuit of the gate-model notebook\<close>

lemma bell_circuit_value: "fst (bell_circuit s) = Inr (bell_result s)"
  by (simp add: bell_circuit_def bind_st_def pure_st_def QuantumRegister_def
      ClassicalRegister_def QuantumCircuit_def circuit_h_def circuit_cx_def
      circuit_measure_def upt_0_2 bell_result_def bell_q_def bell_c_def)

text \<open>A register of one qubit is measured into every bit of a larger classical register;
  two registers of other, different sizes are refused.\<close>

lemma circuit_measure_one_qubit:
  "reg_size q = 1 \<Longrightarrow> reg_size cl = 2 \<Longrightarrow>
     circuit_measure q cl c
       = Inr (c\<lparr>data := data c @ [Measure (q, 0) (cl, 0), Measure (q, 0) (cl, 1)]\<rparr>)"
  by (simp add: circuit_measure_def upt_0_2)

lemma circuit_measure_mismatch:
  "reg_size q = 2 \<Longrightarrow> reg_size cl = 3 \<Longrightarrow> circuit_measure q cl c = Inl CircuitError"
  by (simp add: circuit_measure_def)

text \<open>In a fresh session the registers are \<open>q0\<close> and \<open>c0\<close>, as the notebook draws them.\<close>

lemma bell_registers_fresh_session:
  "map reg_name (qregs (bell_result (session 0 0))) = [''q0'']
   \<and> map reg_name (cregs (bell_result (session 0 0))) = [''c0'']"
  by (simp add: bell_result_def bell_q_def bell_c_def session_def string_of_nat.simps
      digit_char_def)

lemma bell_result_well_formed: "well_formed (bell_result s)"
  by (simp add: bell_result_def well_formed_def bell_q_def bell_c_def)

lemma bell_sizes: "reg_size (bell_q s) = 2" "reg_size (bell_c s) = 2"
  by (simp_all add: bell_q_def bell_c_def)

lemma bell_run:
  "run (bell_result s) =
     [([False, False], [complex_of_real (1 / sqrt 2), 0, 0, 0]),
      ([False, True], [0, 0, 0, 0]),
      ([True, False], [0, 0, 0, 0]),
      ([True, True], [0, 0, 0, complex_of_real (1 / sqrt 2)])]"
  by (simp add: bell_result_def run_def initial_branch_def num_bits_def upt_0_4 bell_sizes
      bit_index_def apply_1q_def H_matrix_def apply_cx_def bit_of_def project_def replicate_2)

lemma bell_weights:
  "weight [complex_of_real (1 / sqrt 2), 0, 0, 0] = 1 / 2"
  "weight [0, 0, 0, complex_of_real (1 / sqrt 2)] = 1 / 2"
  "weight [0, 0, 0, 0] = 0"
  unfolding weight_def by (simp_all add: norm_divide power_divide)

lemma bell_probabilities:
  "outcome_prob (bell_result s) ''00'' = 1 / 2"
  "outcome_prob (bell_result s) ''01'' = 0"
  "outcome_prob (bell_result s) ''10'' = 0"
  "outcome_prob (bell_result s) ''11'' = 1 / 2"
  unfolding outcome_prob_def bell_run
  by (simp_all add: bitstring_def bell_weights del: of_real_divide)

lemma memory_prob_impossible:
  assumes "out \<in> set outs" and "outcome_prob c out = 0"
  shows "memory_prob c outs = 0"
  using assms by (auto simp: memory_prob_def prod_list_zero_iff)

lemma memory_prob_even:
  assumes "\<And>out. out \<in> set outs \<Longrightarrow> outcome_prob c out = 1 / 2"
  shows "memory_prob c outs = (1 / 2) ^ length outs"
  using assms by (induction outs) (simp_all add: memory_prob_def)

text \<open>
  Claim C8.  For the circuit of the gate-model notebook, whatever names its registers
  have: one shot gives 01 with probability 0, 10 with probability 0, 00 with probability
  1/2 and 11 with probability 1/2.  For every number of shots, a record of the shots that
  contains 01 or 10 has probability 0, and a record of 00s and 11s has probability
  \<open>(1/2) ^ shots\<close>.
\<close>

theorem bell_outcome_probabilities:
  "\<exists>c. fst (bell_circuit s) = Inr c
     \<and> outcome_prob c ''01'' = 0 \<and> outcome_prob c ''10'' = 0
     \<and> outcome_prob c ''00'' = 1 / 2 \<and> outcome_prob c ''11'' = 1 / 2
     \<and> (\<forall>shots outs. length outs = shots \<and> (''01'' \<in> set outs \<or> ''10'' \<in> set outs)
            \<longrightarrow> memory_prob c outs = 0)
     \<and> (\<forall>shots outs. length outs = shots \<and> set outs \<subseteq> {''00'', ''11''}
            \<longrightarrow> memory_prob c outs = (1 / 2) ^ shots)"
proof (intro exI conjI allI impI)
  show "fst (bell_circuit s) = Inr (bell_result s)"
    by (rule bell_circuit_value)
next
  fix shots :: nat and outs
  assume "length outs = shots \<and> (''01'' \<in> set outs \<or> ''10'' \<in> set outs)"
  then show "memory_prob (bell_result s) outs = 0"
    using memory_prob_impossible [of _ outs "bell_result s"] bell_probabilities [of s]
    by blast
next
  fix shots :: nat and outs
  assume *: "length outs = shots \<and> set outs \<subseteq> {''00'', ''11''}"
  then have "outcome_prob (bell_result s) out = 1 / 2" if "out \<in> set outs" for out
    using that bell_probabilities [of s] by blast
  then have "memory_prob (bell_result s) outs = (1 / 2) ^ length outs"
    by (rule memory_prob_even)
  with * show "memory_prob (bell_result s) outs = (1 / 2) ^ shots" by simp
qed (simp_all add: bell_probabilities)

theorem bell_outcome_probabilities_witness:
  "\<exists>c. fst (bell_circuit (session 0 0)) = Inr c
     \<and> memory_prob c [''00'', ''11'', ''11''] = 1 / 8
     \<and> memory_prob c [''11'', ''01'', ''00''] = 0"
proof -
  obtain c where c: "fst (bell_circuit (session 0 0)) = Inr c"
    and zero: "\<forall>shots outs. length outs = shots \<and> (''01'' \<in> set outs \<or> ''10'' \<in> set outs)
            \<longrightarrow> memory_prob c outs = 0"
    and even: "\<forall>shots outs. length outs = shots \<and> set outs \<subseteq> {''00'', ''11''}
            \<longrightarrow> memory_prob c outs = (1 / 2) ^ shots"
    using bell_outcome_probabilities [of "session 0 0"] by blast
  from even [rule_format, of "[''00'', ''11'', ''11'']" 3]
  have "memory_prob c [''00'', ''11'', ''11''] = 1 / 8"
    by (simp add: power3_eq_cube)
  moreover from zero [rule_format, of "[''11'', ''01'', ''00'']" 3]
  have "memory_prob c [''11'', ''01'', ''00''] = 0"
    by simp
  ultimately show ?thesis using c by blast
qed

end
